theory Spec2Isabelle
  imports Complex_Main
begin

section \<open>Python values: errors, arguments, tabular data\<close>

text \<open>
  Exceptions of the Python program are values. The string of an error raised by the
  program itself is the message of the source; an error raised inside pandas or numpy
  carries a short description of the library's message.
\<close>

datatype error =
    ValueError string
  | TypeError string
  | KeyError string
  | RuntimeError string
  | ZeroDivisionError string
  | ExternalError string

text \<open>
  An argument that the source tests with \<open>isinstance\<close>: either a value of the expected
  class, or a value of some other Python type (named by the string).
\<close>

datatype 'a pyarg = Is 'a | Other string

text \<open>
  float64. A value is a finite number, one of the two infinities, or NaN. The two zeros
  of float64, which are equal under \<open>==\<close>, are the one value \<open>Fin 0\<close>. A finite value
  \<open>Fin x\<close> of the program has a binary64 number \<open>x\<close>.

  An operation of IEEE 754 on finite operands rounds the exact result and overflows to an
  infinity when the rounded result exceeds the largest finite number. The rounding
  \<open>rnd\<close> (to nearest, ties to even, onto the binary64 numbers continued above the largest
  one) is a parameter of the arithmetic. It is monotone and keeps 0 and 1
  (\<open>ieee_rounding\<close>); the properties below use nothing else of it, so they hold of
  float64 with its rounding errors.
\<close>

datatype f64 = Fin real | PInf | NInf | NaN

definition max_f64 :: real where
  "max_f64 = 2 ^ 1024 - 2 ^ 971"

definition ieee_rounding :: "(real \<Rightarrow> real) \<Rightarrow> bool" where
  "ieee_rounding rnd = ((\<forall>x y. x \<le> y \<longrightarrow> rnd x \<le> rnd y) \<and> rnd 0 = 0 \<and> rnd 1 = 1)"

definition is_finite :: "f64 \<Rightarrow> bool" where
  "is_finite v = (case v of Fin x \<Rightarrow> True | _ \<Rightarrow> False)"

definition f64_of_real :: "(real \<Rightarrow> real) \<Rightarrow> real \<Rightarrow> f64" where
  "f64_of_real rnd x =
     (let r = rnd x in if r > max_f64 then PInf else if r < - max_f64 then NInf else Fin r)"

text \<open>\<open>a - b\<close> and \<open>a / b\<close> of float64; \<open>a <= b\<close>, false when an operand is NaN.\<close>

fun fsub :: "(real \<Rightarrow> real) \<Rightarrow> f64 \<Rightarrow> f64 \<Rightarrow> f64" where
  "fsub rnd NaN b = NaN"
| "fsub rnd a NaN = NaN"
| "fsub rnd PInf PInf = NaN"
| "fsub rnd PInf b = PInf"
| "fsub rnd NInf NInf = NaN"
| "fsub rnd NInf b = NInf"
| "fsub rnd (Fin x) PInf = NInf"
| "fsub rnd (Fin x) NInf = PInf"
| "fsub rnd (Fin x) (Fin y) = f64_of_real rnd (x - y)"

fun fdiv :: "(real \<Rightarrow> real) \<Rightarrow> f64 \<Rightarrow> f64 \<Rightarrow> f64" where
  "fdiv rnd NaN b = NaN"
| "fdiv rnd a NaN = NaN"
| "fdiv rnd PInf (Fin y) = (if y < 0 then NInf else PInf)"
| "fdiv rnd NInf (Fin y) = (if y < 0 then PInf else NInf)"
| "fdiv rnd PInf b = NaN"
| "fdiv rnd NInf b = NaN"
| "fdiv rnd (Fin x) PInf = Fin 0"
| "fdiv rnd (Fin x) NInf = Fin 0"
| "fdiv rnd (Fin x) (Fin y) =
     (if y = 0 then (if x = 0 then NaN else if x > 0 then PInf else NInf)
      else f64_of_real rnd (x / y))"

fun fle :: "f64 \<Rightarrow> f64 \<Rightarrow> bool" where
  "fle NaN b = False"
| "fle a NaN = False"
| "fle NInf b = True"
| "fle a PInf = True"
| "fle PInf b = False"
| "fle (Fin x) NInf = False"
| "fle (Fin x) (Fin y) = (x \<le> y)"

text \<open>\<open>np.minimum\<close> and \<open>np.maximum\<close> of two values: NaN when an operand is NaN.\<close>

definition fminimum :: "f64 \<Rightarrow> f64 \<Rightarrow> f64" where
  "fminimum a b = (if a = NaN \<or> b = NaN then NaN else if fle a b then a else b)"

definition fmaximum :: "f64 \<Rightarrow> f64 \<Rightarrow> f64" where
  "fmaximum a b = (if a = NaN \<or> b = NaN then NaN else if fle a b then b else a)"

text \<open>
  A pandas DataFrame: labelled columns (in order) and the row labels (the index). Every
  column of a DataFrame has as many cells as the index has labels. The cells are float64.
\<close>

record DataFrame =
  df_cols :: "(string \<times> f64 list) list"
  df_index :: "int list"

definition df_columns :: "DataFrame \<Rightarrow> string list" where
  "df_columns d = map fst (df_cols d)"

text \<open>\<open>c in df\<close>: membership in a DataFrame tests the column labels.\<close>

definition df_contains :: "DataFrame \<Rightarrow> string \<Rightarrow> bool" where
  "df_contains d c = (c \<in> set (df_columns d))"

text \<open>\<open>df.head()\<close>: the first five rows, all columns.\<close>

definition df_head :: "DataFrame \<Rightarrow> DataFrame" where
  "df_head d = \<lparr>df_cols = map (\<lambda>(c, vs). (c, take 5 vs)) (df_cols d),
                df_index = take 5 (df_index d)\<rparr>"

text \<open>\<open>df.empty\<close>: true when any axis has length 0 (no column, or no row).\<close>

definition df_empty :: "DataFrame \<Rightarrow> bool" where
  "df_empty d = (df_cols d = [] \<or> df_index d = [])"

text \<open>\<open>df[[n1, ..., nk]]\<close>: the sub-frame of the named columns; KeyError on a missing one.\<close>

fun select_cols :: "(string \<times> f64 list) list \<Rightarrow> string list \<Rightarrow> error + (string \<times> f64 list) list" where
  "select_cols cs [] = Inr []"
| "select_cols cs (n # ns) =
     (case map_of cs n of
        None \<Rightarrow> Inl (KeyError n)
      | Some vs \<Rightarrow> (case select_cols cs ns of Inl e \<Rightarrow> Inl e | Inr r \<Rightarrow> Inr ((n, vs) # r)))"

definition df_getitem_list :: "DataFrame \<Rightarrow> string list \<Rightarrow> error + DataFrame" where
  "df_getitem_list d ns =
     (case select_cols (df_cols d) ns of
        Inl e \<Rightarrow> Inl e
      | Inr cs \<Rightarrow> Inr \<lparr>df_cols = cs, df_index = df_index d\<rparr>)"

text \<open>\<open>df[c].to_numpy()\<close>: the cells of one column.\<close>

definition df_getitem :: "DataFrame \<Rightarrow> string \<Rightarrow> error + f64 list" where
  "df_getitem d c = (case map_of (df_cols d) c of None \<Rightarrow> Inl (KeyError c) | Some vs \<Rightarrow> Inr vs)"

text \<open>\<open>df.to_numpy()\<close>: the N x k array of the cells, one list per row.\<close>

definition df_to_numpy :: "DataFrame \<Rightarrow> f64 list list" where
  "df_to_numpy d = map (\<lambda>i. map (\<lambda>(c, vs). vs ! i) (df_cols d)) [0..<length (df_index d)]"

text \<open>
  \<open>df.loc[labels]\<close> with a list of row labels: the rows carrying each label, in the order of
  the list; KeyError when a label is not in the index.
\<close>

definition positions_of :: "int list \<Rightarrow> int \<Rightarrow> nat list" where
  "positions_of idx l = filter (\<lambda>i. idx ! i = l) [0..<length idx]"

definition take_rows :: "DataFrame \<Rightarrow> nat list \<Rightarrow> DataFrame" where
  "take_rows d ps = \<lparr>df_cols = map (\<lambda>(c, vs). (c, map ((!) vs) ps)) (df_cols d),
                     df_index = map ((!) (df_index d)) ps\<rparr>"

definition df_loc :: "DataFrame \<Rightarrow> int list \<Rightarrow> error + DataFrame" where
  "df_loc d ls =
     (case filter (\<lambda>l. l \<notin> set (df_index d)) ls of
        l # _ \<Rightarrow> Inl (KeyError ''label not in index'')
      | [] \<Rightarrow> Inr (take_rows d (concat (map (positions_of (df_index d)) ls))))"

text \<open>\<open>df.drop(index=labels)\<close>: the rows whose label is not listed; KeyError on an unknown label.\<close>

definition df_drop :: "DataFrame \<Rightarrow> int list \<Rightarrow> error + DataFrame" where
  "df_drop d ls =
     (case filter (\<lambda>l. l \<notin> set (df_index d)) ls of
        l # _ \<Rightarrow> Inl (KeyError ''label not found in axis'')
      | [] \<Rightarrow> Inr (take_rows d (filter (\<lambda>i. df_index d ! i \<notin> set ls) [0..<length (df_index d)])))"

text \<open>Python's \<open>any\<close> and \<open>all\<close> on a list of booleans.\<close>

primrec any_py :: "bool list \<Rightarrow> bool" where
  "any_py [] = False"
| "any_py (b # bs) = (b \<or> any_py bs)"

primrec all_py :: "bool list \<Rightarrow> bool" where
  "all_py [] = True"
| "all_py (b # bs) = (b \<and> all_py bs)"

section \<open>handlers.py: PointCloud and Mesh\<close>

definition COLORS :: "string list" where
  "COLORS = [''red'', ''green'', ''blue'', ''nir'']"

definition NORMALS :: "string list" where
  "NORMALS = [''n_x'', ''n_y'', ''n_z'']"

definition UVS :: "string list" where
  "UVS = [''uv1_row'', ''uv1_col'', ''uv2_row'', ''uv2_col'', ''uv3_row'', ''uv3_col'']"

text \<open>
  The Open3D objects held by the handlers: only the attributes that the handlers read or
  write. An attribute that has not been set is the empty array.
\<close>

record O3dPointCloud =
  points :: "f64 list list"
  colors :: "f64 list list"
  normals :: "f64 list list"

record O3dTriangleMesh =
  vertices :: "f64 list list"
  triangles :: "f64 list list"
  vertex_colors :: "f64 list list"
  vertex_normals :: "f64 list list"
  triangle_uvs :: "f64 list list"
  textures :: "string list"

record PointCloud =
  df :: "DataFrame option"
  o3d_pcd :: "O3dPointCloud option"

text \<open>
  \<open>Mesh\<close>: the attribute \<open>self.df\<close> (the face table, the constructor's argument \<open>mesh\<close>) is
  the field \<open>mesh_df\<close>.
\<close>

record Mesh =
  pcd :: PointCloud
  mesh_df :: "DataFrame option"
  o3d_mesh :: "O3dTriangleMesh option"
  image_texture_path :: "string option"

text \<open>\<open>PointCloud.__init__\<close> (handlers.py 40-61).\<close>

definition PointCloud_init ::
  "DataFrame pyarg option \<Rightarrow> O3dPointCloud pyarg option \<Rightarrow> error + PointCloud" where
  "PointCloud_init df_arg o3d_arg =
     (case df_arg of
        Some (Other t) \<Rightarrow>
          Inl (TypeError (''Input point cloud data 'df' should either be None or a pd.DataFrame. Here found ''
                 @ [CHR 0x27] @ t @ [CHR 0x27] @ ''.''))
      | _ \<Rightarrow>
       (case o3d_arg of
          Some (Other t) \<Rightarrow>
            Inl (TypeError (''Input open3d point cloud data 'o3d_pcd' should either be None or a o3d.geometry.PointCloud. Here found ''
                   @ [CHR 0x27] @ t @ [CHR 0x27] @ ''.''))
        | _ \<Rightarrow>
            Inr \<lparr>df = (case df_arg of Some (Is d) \<Rightarrow> Some d | _ \<Rightarrow> None),
                 o3d_pcd = (case o3d_arg of Some (Is p) \<Rightarrow> Some p | _ \<Rightarrow> None)\<rparr>))"

definition not_assigned_pcd :: error where
  "not_assigned_pcd = ValueError ''Point cloud (pandas DataFrame) is not assigned.''"

definition not_assigned_mesh :: error where
  "not_assigned_mesh = ValueError ''Mesh (pandas DataFrame) is not assigned.''"

text \<open>The properties \<open>PointCloud.has_colors\<close>, \<open>has_normals\<close>, \<open>has_classes\<close> (188-207).\<close>

definition has_colors :: "PointCloud \<Rightarrow> error + bool" where
  "has_colors self =
     (case df self of
        None \<Rightarrow> Inl not_assigned_pcd
      | Some d \<Rightarrow> Inr (any_py (map (\<lambda>c. df_contains (df_head d) c) COLORS)))"

definition has_normals :: "PointCloud \<Rightarrow> error + bool" where
  "has_normals self =
     (case df self of
        None \<Rightarrow> Inl not_assigned_pcd
      | Some d \<Rightarrow> Inr (all_py (map (\<lambda>n. df_contains (df_head d) n) NORMALS)))"

definition has_classes :: "PointCloud \<Rightarrow> error + bool" where
  "has_classes self =
     (case df self of
        None \<Rightarrow> Inl not_assigned_pcd
      | Some d \<Rightarrow> Inr (df_contains (df_head d) ''classification''))"

text \<open>
  Subscripting \<open>self.df\<close> when it is \<open>None\<close> is Python's TypeError.
\<close>

definition none_subscript :: error where
  "none_subscript = TypeError '''NoneType' object is not subscriptable''"

text \<open>\<open>PointCloud.get_colors\<close> and \<open>PointCloud.get_normals\<close> (176-186).\<close>

definition get_colors :: "PointCloud \<Rightarrow> error + DataFrame" where
  "get_colors self =
     (case has_colors self of
        Inl e \<Rightarrow> Inl e
      | Inr b \<Rightarrow>
          if \<not> b then Inl (ValueError ''Point cloud has no color.'')
          else (case df self of
                  None \<Rightarrow> Inl none_subscript
                | Some d \<Rightarrow> df_getitem_list d (filter (\<lambda>c. df_contains (df_head d) c) COLORS)))"

definition get_normals :: "PointCloud \<Rightarrow> error + DataFrame" where
  "get_normals self =
     (case has_normals self of
        Inl e \<Rightarrow> Inl e
      | Inr b \<Rightarrow>
          if \<not> b then Inl (ValueError ''Point cloud has no normals.'')
          else (case df self of
                  None \<Rightarrow> Inl none_subscript
                | Some d \<Rightarrow> df_getitem_list d NORMALS))"

text \<open>\<open>Mesh.__init__\<close> (225-239).\<close>

definition Mesh_init ::
  "DataFrame pyarg option \<Rightarrow> DataFrame option \<Rightarrow> O3dPointCloud pyarg option \<Rightarrow>
   O3dTriangleMesh option \<Rightarrow> error + Mesh" where
  "Mesh_init pcd_arg mesh_arg o3d_pcd_arg o3d_mesh_arg =
     (case PointCloud_init pcd_arg o3d_pcd_arg of
        Inl e \<Rightarrow> Inl e
      | Inr p \<Rightarrow> Inr \<lparr>pcd = p, mesh_df = mesh_arg, o3d_mesh = o3d_mesh_arg,
                       image_texture_path = None\<rparr>)"

text \<open>\<open>Mesh.set_image_texture_path\<close> (280-281).\<close>

definition set_image_texture_path :: "Mesh \<Rightarrow> string option \<Rightarrow> Mesh" where
  "set_image_texture_path self p = self\<lparr>image_texture_path := p\<rparr>"

text \<open>\<open>Mesh.get_triangles\<close> (408-409).\<close>

definition get_triangles :: "Mesh \<Rightarrow> error + DataFrame" where
  "get_triangles self =
     (case mesh_df self of
        None \<Rightarrow> Inl none_subscript
      | Some d \<Rightarrow> df_getitem_list d [''p1'', ''p2'', ''p3''])"

text \<open>The properties \<open>Mesh.has_triangles\<close>, \<open>has_texture\<close>, \<open>has_triangle_uvs\<close> (423-466).\<close>

definition has_triangles :: "Mesh \<Rightarrow> error + bool" where
  "has_triangles self =
     (case mesh_df self of
        None \<Rightarrow> Inl not_assigned_mesh
      | Some d \<Rightarrow>
          Inr (all_py (map (\<lambda>n. df_contains (df_head d) n) [''p1'', ''p2'', ''p3''])
               \<and> \<not> df_empty d))"

definition has_texture :: "Mesh \<Rightarrow> error + bool" where
  "has_texture self =
     (case mesh_df self of
        None \<Rightarrow> Inl not_assigned_mesh
      | Some d \<Rightarrow>
          Inr (image_texture_path self \<noteq> None
               \<and> all_py (map (\<lambda>el. df_contains (df_head d) el)
                    [''uv1_row'', ''uv1_col'', ''uv2_row'', ''uv2_col'', ''uv3_row'', ''uv3_col''])
               \<and> \<not> df_empty d))"

definition has_triangle_uvs :: "Mesh \<Rightarrow> error + bool" where
  "has_triangle_uvs self =
     (case mesh_df self of
        None \<Rightarrow> Inl not_assigned_mesh
      | Some d \<Rightarrow>
          Inr (all_py (map (\<lambda>el. df_contains (df_head d) el)
                    [''uv1_row'', ''uv1_col'', ''uv2_row'', ''uv2_col'', ''uv3_row'', ''uv3_col''])
               \<and> \<not> df_empty d))"

text \<open>\<open>Mesh.get_triangle_uvs\<close> (411-415).\<close>

definition get_triangle_uvs :: "Mesh \<Rightarrow> error + DataFrame" where
  "get_triangle_uvs self =
     (case has_triangle_uvs self of
        Inl e \<Rightarrow> Inl e
      | Inr b \<Rightarrow>
          if \<not> b then Inl (ValueError ''Mesh has no triangle uvs.'')
          else (case mesh_df self of
                  None \<Rightarrow> Inl none_subscript
                | Some d \<Rightarrow> df_getitem_list d UVS))"

section \<open>handlers.py: colours for Open3D\<close>

text \<open>
  numpy's \<open>a.min()\<close> and \<open>a.max()\<close> with no axis: the reduction over all the elements of the
  array, NaN when an element is NaN. On an array without elements numpy raises ValueError.
\<close>

fun amin :: "f64 list \<Rightarrow> error + f64" where
  "amin [] = Inl (ValueError ''zero-size array to reduction operation minimum which has no identity'')"
| "amin (x # xs) = Inr (fold fminimum xs x)"

fun amax :: "f64 list \<Rightarrow> error + f64" where
  "amax [] = Inl (ValueError ''zero-size array to reduction operation maximum which has no identity'')"
| "amax (x # xs) = Inr (fold fmaximum xs x)"

text \<open>\<open>np.zeros_like(a)\<close>.\<close>

definition zeros_like :: "f64 list list \<Rightarrow> f64 list list" where
  "zeros_like a = map (map (\<lambda>_. Fin 0)) a"

text \<open>
  \<open>a[:, k] = vs\<close>: column \<open>k\<close> of the array is overwritten; numpy raises ValueError when
  \<open>vs\<close> has not one value per row.
\<close>

definition set_column :: "f64 list list \<Rightarrow> nat \<Rightarrow> f64 list \<Rightarrow> error + f64 list list" where
  "set_column a k vs =
     (if length vs \<noteq> length a then Inl (ValueError ''could not broadcast input array'')
      else Inr (map (\<lambda>(row, v). row[k := v]) (zip a vs)))"

text \<open>
  The loop \<open>for k, c in enumerate(["red", "green", "blue"])\<close> of \<open>set_o3d_colors\<close>
  (144-150) and of \<open>set_o3d_vertex_colors\<close> (355-361), from index \<open>k\<close> on.
\<close>

fun fill_channels :: "DataFrame \<Rightarrow> nat \<Rightarrow> string list \<Rightarrow> f64 list list \<Rightarrow> error + f64 list list" where
  "fill_channels d k [] colors_arr = Inr colors_arr"
| "fill_channels d k (c # cs) colors_arr =
     (if df_contains d c then
        (case df_getitem d c of
           Inl e \<Rightarrow> Inl e
         | Inr vs \<Rightarrow>
            (case set_column colors_arr k vs of
               Inl e \<Rightarrow> Inl e
             | Inr a \<Rightarrow> fill_channels d (k + 1) cs a))
      else Inl (ValueError (''Open3D only deals with RGB colors. Here '' @ [CHR 0x27] @ c @ [CHR 0x27]
                  @ '' is missing.'')))"

text \<open>
  The array of the colours before it is normalised (140-150, and the same lines 351-361):
  zeros of the shape of the x, y, z array, then the three channels.
\<close>

definition rgb_array :: "DataFrame \<Rightarrow> error + f64 list list" where
  "rgb_array d =
     (case df_getitem_list d [''x'', ''y'', ''z''] of
        Inl e \<Rightarrow> Inl e
      | Inr xyz \<Rightarrow> fill_channels d 0 [''red'', ''green'', ''blue''] (zeros_like (df_to_numpy xyz)))"

text \<open>
  The normalisation (152-157, and the same lines 363-368):
  \<open>np.divide(a - a.min(), a.max() - a.min(), out=np.zeros_like(a), where=(a.max() - a.min()) != 0.0)\<close>.
  The condition is one boolean for the whole array; it is true when the difference is
  NaN. Where it is false the element of \<open>out\<close>, zero, stays.
\<close>

definition normalize_colors :: "(real \<Rightarrow> real) \<Rightarrow> f64 list list \<Rightarrow> error + f64 list list" where
  "normalize_colors rnd colors_arr =
     (case amin (concat colors_arr) of
        Inl e \<Rightarrow> Inl e
      | Inr mn \<Rightarrow>
         (case amax (concat colors_arr) of
            Inl e \<Rightarrow> Inl e
          | Inr mx \<Rightarrow>
              Inr (map (map (\<lambda>v. if fsub rnd mx mn \<noteq> Fin 0
                                   then fdiv rnd (fsub rnd v mn) (fsub rnd mx mn)
                                   else Fin 0)) colors_arr)))"

text \<open>\<open>PointCloud.set_o3d_colors\<close> (131-159), in the arithmetic of rounding \<open>rnd\<close>.\<close>

definition set_o3d_colors :: "(real \<Rightarrow> real) \<Rightarrow> PointCloud \<Rightarrow> error + PointCloud" where
  "set_o3d_colors rnd self =
     (case o3d_pcd self of
        None \<Rightarrow> Inl (ValueError ''Open3D Point Cloud is empty.'')
      | Some p \<Rightarrow>
         (case df self of
            None \<Rightarrow> Inl none_subscript
          | Some d \<Rightarrow>
             (case rgb_array d of
                Inl e \<Rightarrow> Inl e
              | Inr colors_arr \<Rightarrow>
                 (case normalize_colors rnd colors_arr of
                    Inl e \<Rightarrow> Inl e
                  | Inr n \<Rightarrow> Inr (self\<lparr>o3d_pcd := Some (p\<lparr>colors := n\<rparr>)\<rparr>)))))"

text \<open>\<open>Mesh.set_o3d_vertex_colors\<close> (340-370), in the arithmetic of rounding \<open>rnd\<close>.\<close>

definition set_o3d_vertex_colors :: "(real \<Rightarrow> real) \<Rightarrow> Mesh \<Rightarrow> error + Mesh" where
  "set_o3d_vertex_colors rnd self =
     (case o3d_mesh self of
        None \<Rightarrow> Inl (ValueError ''Could not set df from open3d mesh because it is empty.'')
      | Some m \<Rightarrow>
         (case df (pcd self) of
            None \<Rightarrow> Inl none_subscript
          | Some d \<Rightarrow>
             (case rgb_array d of
                Inl e \<Rightarrow> Inl e
              | Inr colors_arr \<Rightarrow>
                 (case normalize_colors rnd colors_arr of
                    Inl e \<Rightarrow> Inl e
                  | Inr n \<Rightarrow> Inr (self\<lparr>o3d_mesh := Some (m\<lparr>vertex_colors := n\<rparr>)\<rparr>)))))"

text \<open>
  The normalisation in the words of the specification, to compare with: each channel
  (column of the array) with its own minimum and maximum, and 0 in a channel whose
  maximum equals its minimum.
\<close>

definition channel :: "f64 list list \<Rightarrow> nat \<Rightarrow> f64 list" where
  "channel a k = map (\<lambda>row. row ! k) a"

definition spec_normalize_per_channel :: "(real \<Rightarrow> real) \<Rightarrow> f64 list list \<Rightarrow> f64 list list" where
  "spec_normalize_per_channel rnd a =
     map (\<lambda>row. map (\<lambda>k. let ch = channel a k; mn = fold fminimum (tl ch) (hd ch);
                              mx = fold fmaximum (tl ch) (hd ch)
                          in if mx = mn then Fin 0
                             else fdiv rnd (fsub rnd (row ! k) mn) (fsub rnd mx mn))
                     [0..<length row]) a"

section \<open>Effects: the outside world and the trace\<close>

text \<open>
  The program logs through loguru, prints, and calls collaborators that read and write
  the file system. A state \<open>'w io\<close> holds the outside world \<open>'w\<close> (whatever the
  collaborators act on) and the trace: the log records, the printed values and the calls
  of the I/O collaborators, in program order. A function with effects maps a state to a
  result (\<open>Inl\<close> an exception) and the state reached; the trace written before an
  exception is kept.
\<close>

datatype level = DEBUG | INFO | WARNING | ERROR

datatype event =
    Log level string
  | Print string real
  | Makedirs string
  | Serialize_mesh string string
  | Serialize_point_cloud string string

record 'w io =
  world :: 'w
  trace :: "event list"

definition logger :: "level \<Rightarrow> string \<Rightarrow> 'w io \<Rightarrow> 'w io" where
  "logger l msg s = s\<lparr>trace := trace s @ [Log l msg]\<rparr>"

text \<open>
  A call of a collaborator that acts on the world: the call is recorded, then the world
  is replaced by the one the collaborator returns, or the collaborator's exception is
  raised.
\<close>

definition io_call :: "event \<Rightarrow> ('w \<Rightarrow> error + 'w) \<Rightarrow> 'w io \<Rightarrow> (error + unit) \<times> 'w io" where
  "io_call ev f s =
     (case f (world s) of
        Inl e \<Rightarrow> (Inl e, s\<lparr>trace := trace s @ [ev]\<rparr>)
      | Inr w \<Rightarrow> (Inr (), s\<lparr>world := w, trace := trace s @ [ev]\<rparr>))"

section \<open>Python and POSIX library functions used by the pipeline\<close>

text \<open>\<open>str(n)\<close> for a non-negative integer: its decimal digits.\<close>

definition digit :: "nat \<Rightarrow> char" where
  "digit n = ''0123456789'' ! n"

fun str_nat :: "nat \<Rightarrow> string" where
  "str_nat n = (if n < 10 then [digit n] else str_nat (n div 10) @ [digit (n mod 10)])"

declare str_nat.simps [simp del]

text \<open>\<open>s.zfill(width)\<close>: zeros on the left up to \<open>width\<close>, after a leading sign if any.\<close>

definition zfill :: "string \<Rightarrow> nat \<Rightarrow> string" where
  "zfill s width =
     (case s of
        [] \<Rightarrow> replicate width (CHR ''0'')
      | c # r \<Rightarrow>
          if c = CHR ''+'' \<or> c = CHR ''-''
          then c # replicate (width - length s) (CHR ''0'') @ r
          else replicate (width - length s) (CHR ''0'') @ s)"

text \<open>\<open>os.path.join(a, b)\<close> and \<open>os.path.basename(p)\<close> of posixpath.\<close>

definition path_join :: "string \<Rightarrow> string \<Rightarrow> string" where
  "path_join a b =
     (if b \<noteq> [] \<and> hd b = CHR ''/'' then b
      else if a = [] \<or> last a = CHR ''/'' then a @ b
      else a @ ''/'' @ b)"

definition basename :: "string \<Rightarrow> string" where
  "basename p = rev (takeWhile (\<lambda>c. c \<noteq> CHR ''/'') (rev p))"

section \<open>handlers.py: serialisation\<close>

text \<open>
  The modules \<open>tools/mesh_io.py\<close> and \<open>tools/point_cloud_io.py\<close> of the package are
  collaborators: \<open>serialize_mesh(filepath, mesh, extension)\<close> and
  \<open>serialize_point_cloud(filepath, df, extension)\<close> are parameters of the model.
  \<open>Mesh.serialize\<close> (482-486) and \<open>PointCloud.serialize\<close> (209-213) call them.
\<close>

definition Mesh_serialize ::
  "(string \<Rightarrow> Mesh \<Rightarrow> string \<Rightarrow> 'w \<Rightarrow> error + 'w) \<Rightarrow> Mesh \<Rightarrow> string \<Rightarrow> string \<Rightarrow> 'w io
   \<Rightarrow> (error + unit) \<times> 'w io" where
  "Mesh_serialize serialize_mesh self filepath extension s =
     io_call (Serialize_mesh filepath extension) (serialize_mesh filepath self extension) s"

definition PointCloud_serialize ::
  "(string \<Rightarrow> DataFrame option \<Rightarrow> string \<Rightarrow> 'w \<Rightarrow> error + 'w) \<Rightarrow> PointCloud \<Rightarrow> string \<Rightarrow> string
   \<Rightarrow> 'w io \<Rightarrow> (error + unit) \<times> 'w io" where
  "PointCloud_serialize serialize_point_cloud self filepath extension s =
     io_call (Serialize_point_cloud filepath extension)
       (serialize_point_cloud filepath (df self) extension) s"

section \<open>mesh3d_reconstruct.py: the pipeline\<close>

text \<open>
  A step of the configuration: the keys \<open>action\<close> and \<open>method\<close>, the optional key
  \<open>save_output\<close> (\<open>None\<close> when the key is absent) and the parameters of the method, which
  only the state machine reads.
\<close>

record step =
  action :: string
  method_name :: string
  save_output :: "bool option"
  params :: "(string \<times> string) list"

record cfg =
  state_machine :: "step list"
  output_dir :: string
  output_name :: "string option"
  input_path :: string
  initial_state :: string

text \<open>
  The collaborators of \<open>mesh3d_reconstruct.py\<close>: the class \<open>Mesh3DMachine\<close> of
  \<open>state_machine.py\<close> (a machine is a value of \<open>'m\<close>), the functions of \<open>config.py\<close>,
  \<open>read_input_path\<close>, the serialisers, and the functions of Python's \<open>os\<close>. All of them
  are parameters, and each may raise.
\<close>

record ('m, 'w) env =
  check_config :: "string \<Rightarrow> 'w \<Rightarrow> error + cfg"
  save_config_file :: "string \<Rightarrow> cfg \<Rightarrow> 'w \<Rightarrow> error + 'w"
  logger_add :: "string \<Rightarrow> 'w \<Rightarrow> error + 'w"
  read_input_path :: "string \<Rightarrow> 'w \<Rightarrow> error + Mesh"
  Mesh3DMachine :: "Mesh \<Rightarrow> string \<Rightarrow> error + 'm"
  machine_initial_state :: "'m \<Rightarrow> string"
  mesh_data :: "'m \<Rightarrow> Mesh"
  check_transitions :: "'m \<Rightarrow> cfg \<Rightarrow> error + 'm"
  machine_run :: "'m \<Rightarrow> step \<Rightarrow> cfg \<Rightarrow> 'w \<Rightarrow> error + 'm \<times> 'w"
  serialize_mesh :: "string \<Rightarrow> Mesh \<Rightarrow> string \<Rightarrow> 'w \<Rightarrow> error + 'w"
  serialize_point_cloud :: "string \<Rightarrow> DataFrame option \<Rightarrow> string \<Rightarrow> 'w \<Rightarrow> error + 'w"
  makedirs :: "string \<Rightarrow> 'w \<Rightarrow> error + 'w"
  listdir :: "string \<Rightarrow> 'w \<Rightarrow> error + string list"
  abspath :: "string \<Rightarrow> 'w \<Rightarrow> string"

text \<open>The folder and the file path (without extension) of an intermediate result (75-91).\<close>

definition intermediate_folder :: "cfg \<Rightarrow> string" where
  "intermediate_folder c = path_join (output_dir c) ''intermediate_results''"

definition intermediate_filepath :: "cfg \<Rightarrow> nat \<Rightarrow> step \<Rightarrow> string" where
  "intermediate_filepath c k st =
     path_join (intermediate_folder c)
       (zfill (str_nat (k + 1)) 2 @ ''_'' @ action st @ ''_'' @ method_name st)"

definition not_empty_warning :: "cfg \<Rightarrow> string" where
  "not_empty_warning c =
     ''Directory '' @ [CHR 0x27] @ intermediate_folder c @ [CHR 0x27]
       @ '' is not empty. Some files might be overwritten.''"

definition saved_message :: "nat \<Rightarrow> string \<Rightarrow> string" where
  "saved_message k path =
     ''Step #'' @ str_nat (k + 1) @ '': Results saved in '' @ [CHR 0x27] @ path @ [CHR 0x27] @ ''.''"

text \<open>
  The body of the loop of \<open>run\<close> after the action has run (71-111): the optional saving
  of the intermediate result of step \<open>k\<close> (counted from 0), the machine being in \<open>m\<close>.
\<close>

definition save_intermediate ::
  "('m, 'w) env \<Rightarrow> cfg \<Rightarrow> nat \<Rightarrow> step \<Rightarrow> 'm \<Rightarrow> 'w io \<Rightarrow> (error + unit) \<times> 'w io" where
  "save_intermediate E c k st m s =
     (case save_output st of
        None \<Rightarrow> (Inr (), s)
      | Some b \<Rightarrow>
          if \<not> b then (Inr (), s)
          else
           (case io_call (Makedirs (intermediate_folder c)) (makedirs E (intermediate_folder c)) s of
              (Inl e, s1) \<Rightarrow> (Inl e, s1)
            | (Inr _, s1) \<Rightarrow>
               (case (if k = 0
                      then (case listdir E (intermediate_folder c) (world s1) of
                              Inl e \<Rightarrow> Inl e
                            | Inr names \<Rightarrow> Inr (names \<noteq> []))
                      else Inr False) of
                  Inl e \<Rightarrow> (Inl e, s1)
                | Inr warn \<Rightarrow>
                   (let s2 = (if warn then logger WARNING (not_empty_warning c) s1 else s1) in
                    if mesh_df (mesh_data E m) \<noteq> None then
                      (case Mesh_serialize (serialize_mesh E) (mesh_data E m)
                              (intermediate_filepath c k st @ ''.'' @ ''ply'') ''ply'' s2 of
                         (Inl e, s3) \<Rightarrow> (Inl e, s3)
                       | (Inr _, s3) \<Rightarrow>
                           (Inr (), logger DEBUG
                              (saved_message k (intermediate_filepath c k st @ ''.'' @ ''ply'')) s3))
                    else
                      (case PointCloud_serialize (serialize_point_cloud E) (pcd (mesh_data E m))
                              (intermediate_filepath c k st @ ''.'' @ ''laz'') ''laz'' s2 of
                         (Inl e, s3) \<Rightarrow> (Inl e, s3)
                       | (Inr _, s3) \<Rightarrow>
                           (Inr (), logger DEBUG
                              (saved_message k (intermediate_filepath c k st @ ''.'' @ ''laz'')) s3))))))"

definition step_message :: "nat \<Rightarrow> step \<Rightarrow> string" where
  "step_message k st =
     ''Step #'' @ str_nat (k + 1) @ '': '' @ action st @ '' with '' @ method_name st @ '' method''"

text \<open>
  The loop \<open>for k, step in enumerate(cfg["state_machine"])\<close> (62-111), from index \<open>k\<close> on
  with the steps still to run.
\<close>

fun run_steps ::
  "('m, 'w) env \<Rightarrow> cfg \<Rightarrow> nat \<Rightarrow> step list \<Rightarrow> 'm \<Rightarrow> 'w io \<Rightarrow> (error + 'm) \<times> 'w io" where
  "run_steps E c k [] m s = (Inr m, s)"
| "run_steps E c k (st # rest) m s =
     (let s1 = logger INFO (step_message k st) s in
      case machine_run E m st c (world s1) of
        Inl e \<Rightarrow> (Inl e, s1)
      | Inr (m', w) \<Rightarrow>
         (case save_intermediate E c k st m' (s1\<lparr>world := w\<rparr>) of
            (Inl e, s2) \<Rightarrow> (Inl e, s2)
          | (Inr _, s2) \<Rightarrow> run_steps E c (k + 1) rest m' s2))"

text \<open>\<open>run\<close> (34-113).\<close>

definition run :: "('m, 'w) env \<Rightarrow> 'm \<Rightarrow> cfg \<Rightarrow> 'w io \<Rightarrow> (error + Mesh) \<times> 'w io" where
  "run E mesh3d_machine c s =
     (if state_machine c = [] then
        (Inr (mesh_data E mesh3d_machine),
         logger WARNING ''State machine is empty. Returning the initial data.'' s)
      else
        (let s0 = logger DEBUG (''Initial state: '' @ machine_initial_state E mesh3d_machine) s in
         case check_transitions E mesh3d_machine c of
           Inl e \<Rightarrow> (Inl e, s0)
         | Inr m0 \<Rightarrow>
            (case run_steps E c 0 (state_machine c) m0 s0 of
               (Inl e, s1) \<Rightarrow> (Inl e, s1)
             | (Inr m1, s1) \<Rightarrow> (Inr (mesh_data E m1), s1))))"

text \<open>
  The end of \<open>main\<close> (159-182): the serialisation of the data returned by \<open>run\<close>.
\<close>

definition main_serialize ::
  "('m, 'w) env \<Rightarrow> cfg \<Rightarrow> Mesh \<Rightarrow> 'w io \<Rightarrow> (error + unit) \<times> 'w io" where
  "main_serialize E c out_mesh s =
     (let c' = (if output_name c = None then c\<lparr>output_name := Some ''output_mesh3d''\<rparr> else c);
          extension = (if mesh_df out_mesh \<noteq> None then ''ply'' else ''laz'');
          out_filename = (case output_name c' of None \<Rightarrow> [] | Some n \<Rightarrow> n) @ ''.'' @ extension
      in if mesh_df out_mesh \<noteq> None then
           (case Mesh_serialize (serialize_mesh E) out_mesh
                   (path_join (output_dir c') out_filename) extension s of
              (Inl e, s1) \<Rightarrow> (Inl e, s1)
            | (Inr _, s1) \<Rightarrow>
                (Inr (), logger INFO (''Mesh serialized as a '' @ [CHR 0x27] @ extension @ [CHR 0x27]
                                        @ '' file'') s1))
         else
           (case PointCloud_serialize (serialize_point_cloud E) (pcd out_mesh)
                   (path_join (output_dir c') out_filename) extension s of
              (Inl e, s1) \<Rightarrow> (Inl e, s1)
            | (Inr _, s1) \<Rightarrow>
                (Inr (), logger INFO (''Point cloud serialized as a '' @ [CHR 0x27] @ extension
                                        @ [CHR 0x27] @ '' file'') s1)))"

text \<open>
  \<open>main\<close> (116-182). The level set on the logger of the \<open>transitions\<close> package (126)
  has no effect on the trace.
\<close>

definition main :: "('m, 'w) env \<Rightarrow> string \<Rightarrow> 'w io \<Rightarrow> (error + unit) \<times> 'w io" where
  "main E cfg_path s =
     (case check_config E cfg_path (world s) of
        Inl e \<Rightarrow> (Inl e, s)
      | Inr c0 \<Rightarrow>
         (let c = c0\<lparr>output_dir := abspath E (output_dir c0) (world s)\<rparr> in
          case io_call (Makedirs (output_dir c)) (makedirs E (output_dir c)) s of
            (Inl e, s1) \<Rightarrow> (Inl e, s1)
          | (Inr _, s1) \<Rightarrow>
             (case save_config_file E (path_join (output_dir c) (basename cfg_path)) c (world s1) of
                Inl e \<Rightarrow> (Inl e, s1)
              | Inr w2 \<Rightarrow>
                 (case logger_add E (path_join (output_dir c) ''{time}_logs.txt'') w2 of
                    Inl e \<Rightarrow> (Inl e, s1\<lparr>world := w2\<rparr>)
                  | Inr w3 \<Rightarrow>
                     (let s3 = logger INFO ''Configuration file checked.'' (s1\<lparr>world := w3\<rparr>) in
                      case read_input_path E (input_path c) (world s3) of
                        Inl e \<Rightarrow> (Inl e, s3)
                      | Inr mesh \<Rightarrow>
                         (case Mesh3DMachine E mesh (initial_state c) of
                            Inl e \<Rightarrow> (Inl e, s3)
                          | Inr mesh3d_machine \<Rightarrow>
                             (case run E mesh3d_machine c s3 of
                                (Inl e, s4) \<Rightarrow> (Inl e, s4)
                              | (Inr out_mesh, s4) \<Rightarrow> main_serialize E c out_mesh s4)))))))"

section \<open>filter.py: outlier filters\<close>

text \<open>
  The collaborators of \<open>filter.py\<close>: Open3D's outlier removals, which return the positions
  of the points they keep; scipy's KDTree (of trees \<open>'t\<close>) and its query, which returns
  the distances and the positions of the nearest neighbours; and
  \<open>point_cloud_handling.serialize_point_cloud\<close>. Each may raise.
\<close>

record ('t, 'w) filter_env =
  remove_radius_outlier :: "f64 list list \<Rightarrow> int \<Rightarrow> real \<Rightarrow> error + int list"
  remove_statistical_outlier :: "f64 list list \<Rightarrow> int \<Rightarrow> real \<Rightarrow> error + int list"
  KDTree :: "f64 list list \<Rightarrow> error + 't"
  query :: "'t \<Rightarrow> f64 list \<Rightarrow> int \<Rightarrow> error + real list \<times> int list"
  handling_serialize_point_cloud :: "string \<Rightarrow> DataFrame \<Rightarrow> 'w \<Rightarrow> error + 'w"

definition unknown_type :: "string \<Rightarrow> error" where
  "unknown_type t =
     TypeError (''Cloud is of an unknown type '' @ t @ ''. It should either be a pandas DataFrame.'')"

text \<open>
  A bare \<open>raise\<close> outside an \<open>except\<close> block, as in lines 90 and 213: Python raises
  RuntimeError, there being no exception to raise again. (Were the filter called inside
  the \<open>except\<close> block of a caller, the exception handled there would be raised again: an
  error in both cases.)
\<close>

definition bare_raise :: error where
  "bare_raise = RuntimeError ''No active exception to reraise''"

definition empty_output_message :: string where
  "empty_output_message = ''Point cloud output by the outlier filtering step is empty.''"

text \<open>
  The end of both outlier filters (84-100 and 207-223), given the positions kept by
  Open3D: the rows are selected, an empty result is an error, the debug serialisation is
  optional.
\<close>

definition keep_valid_points ::
  "('t, 'w) filter_env \<Rightarrow> DataFrame \<Rightarrow> int list \<Rightarrow> bool \<Rightarrow> string \<Rightarrow> 'w io
   \<Rightarrow> (error + DataFrame) \<times> 'w io" where
  "keep_valid_points FE d ind_valid_pts serialize path s =
     (case df_loc d ind_valid_pts of
        Inl e \<Rightarrow> (Inl e, s)
      | Inr df_pcd \<Rightarrow>
          if df_empty df_pcd then (Inl bare_raise, logger ERROR empty_output_message s)
          else if serialize then
            (case io_call (Serialize_point_cloud path [])
                    (handling_serialize_point_cloud FE path df_pcd) s of
               (Inl e, s1) \<Rightarrow> (Inl e, s1)
             | (Inr _, s1) \<Rightarrow> (Inr df_pcd, s1))
          else (Inr df_pcd, s))"

text \<open>\<open>radius_filtering_outliers_o3\<close> (40-100).\<close>

definition radius_filtering_outliers_o3 ::
  "('t, 'w) filter_env \<Rightarrow> DataFrame pyarg \<Rightarrow> real \<Rightarrow> int \<Rightarrow> bool \<Rightarrow> 'w io
   \<Rightarrow> (error + DataFrame) \<times> 'w io" where
  "radius_filtering_outliers_o3 FE df_pcd radius nb_points serialize s =
     (case df_pcd of
        Other t \<Rightarrow> (Inl (unknown_type t), s)
      | Is d \<Rightarrow>
         (case df_getitem_list d [''x'', ''y'', ''z''] of
            Inl e \<Rightarrow> (Inl e, s)
          | Inr xyz \<Rightarrow>
             (case remove_radius_outlier FE (df_to_numpy xyz) nb_points radius of
                Inl e \<Rightarrow> (Inl e, s)
              | Inr ind_valid_pts \<Rightarrow>
                  keep_valid_points FE d ind_valid_pts serialize
                    ''/home/data/radiuso3dpyramidedekmin_04.las'' s)))"

text \<open>\<open>statistical_filtering_outliers_o3d\<close> (158-223).\<close>

definition statistical_filtering_outliers_o3d ::
  "('t, 'w) filter_env \<Rightarrow> DataFrame pyarg \<Rightarrow> int \<Rightarrow> real \<Rightarrow> bool \<Rightarrow> 'w io
   \<Rightarrow> (error + DataFrame) \<times> 'w io" where
  "statistical_filtering_outliers_o3d FE df_pcd nb_neighbors std_factor serialize s =
     (case df_pcd of
        Other t \<Rightarrow> (Inl (unknown_type t), s)
      | Is d \<Rightarrow>
         (case df_getitem_list d [''x'', ''y'', ''z''] of
            Inl e \<Rightarrow> (Inl e, s)
          | Inr xyz \<Rightarrow>
             (case remove_statistical_outlier FE (df_to_numpy xyz) nb_neighbors std_factor of
                Inl e \<Rightarrow> (Inl e, s)
              | Inr ind_valid_pts \<Rightarrow>
                  keep_valid_points FE d ind_valid_pts serialize
                    ''/home/data/statso3dpyramide.las'' s)))"

text \<open>
  The loop of \<open>local_density_analysis\<close> (252-269) over the points still to visit, \<open>idx\<close>
  being the position of the first of them; the accumulator holds \<open>remove_pts\<close>,
  \<open>moy\<close> and \<open>deltas\<close>. The distances answered by the query, and the numbers this loop
  computes from them, are real numbers here and not float64: where numpy would round, or
  give nan or inf (a division by a zero float), the number of the model is not numpy's,
  and no property below depends on these numbers. \<open>1 / nb_neighbors\<close> divides
  Python integers and raises for 0.
\<close>

fun density_loop ::
  "('t, 'w) filter_env \<Rightarrow> 't \<Rightarrow> int \<Rightarrow> nat \<Rightarrow> f64 list list \<Rightarrow> nat list \<times> real list \<times> real list
   \<Rightarrow> error + nat list \<times> real list \<times> real list" where
  "density_loop FE cloud_tree nb_neighbors idx [] acc = Inr acc"
| "density_loop FE cloud_tree nb_neighbors idx (p # ps) (remove_pts, moy, deltas) =
     (case query FE cloud_tree p nb_neighbors of
        Inl e \<Rightarrow> Inl e
      | Inr (distances, pts) \<Rightarrow>
          if nb_neighbors = 0 then Inl (ZeroDivisionError ''division by zero'')
          else
            (let mean_neighbors_distances = sum_list distances / of_int nb_neighbors;
                 density = (1 / of_int nb_neighbors)
                   * sum_list (map (\<lambda>dist. exp (- dist / mean_neighbors_distances)) distances);
                 proba = 1 - density;
                 delta = (1 / 10) * mean_neighbors_distances
             in density_loop FE cloud_tree nb_neighbors (idx + 1) ps
                  (if proba > 6 / 10 then remove_pts @ [idx] else remove_pts,
                   moy @ [proba], deltas @ [delta])))"

text \<open>
  \<open>local_density_analysis\<close> (226-282). The function has no \<open>return\<close> statement: when it
  ends without an exception its value is \<open>None\<close>.
\<close>

definition local_density_analysis ::
  "('t, 'w) filter_env \<Rightarrow> DataFrame pyarg \<Rightarrow> int \<Rightarrow> bool \<Rightarrow> 'w io
   \<Rightarrow> (error + DataFrame option) \<times> 'w io" where
  "local_density_analysis FE df_pcd nb_neighbors serialize s =
     (case df_pcd of
        Other t \<Rightarrow> (Inl (unknown_type t), s)
      | Is d \<Rightarrow>
         (case df_getitem_list d [''x'', ''y'', ''z''] of
            Inl e \<Rightarrow> (Inl e, s)
          | Inr xyz \<Rightarrow>
             (case KDTree FE (df_to_numpy xyz) of
                Inl e \<Rightarrow> (Inl e, s)
              | Inr cloud_tree \<Rightarrow>
                 (case density_loop FE cloud_tree nb_neighbors 0 (df_to_numpy xyz) ([], [], []) of
                    Inl e \<Rightarrow> (Inl e, s)
                  | Inr (remove_pts, moy, deltas) \<Rightarrow>
                     (case df_drop d (map ((!) (df_index d)) remove_pts) of
                        Inl e \<Rightarrow> (Inl e, s)
                      | Inr dropped \<Rightarrow>
                          if moy = [] then (Inl (ZeroDivisionError ''division by zero''), s)
                          else
                           (let s1 = s\<lparr>trace := trace s
                                      @ [Print [] (sum_list moy / of_nat (length moy))]\<rparr>
                            in if deltas = [] then (Inl (ZeroDivisionError ''division by zero''), s1)
                               else
                                (let s2 = s1\<lparr>trace := trace s1
                                      @ [Print ''delta'' (sum_list deltas / of_nat (length deltas))]\<rparr>
                                 in if serialize then
                                      (case io_call (Serialize_point_cloud ''/home/data/localdensity4.las'' [])
                                              (handling_serialize_point_cloud FE
                                                 ''/home/data/localdensity4.las'' dropped) s2 of
                                         (Inl e, s3) \<Rightarrow> (Inl e, s3)
                                       | (Inr _, s3) \<Rightarrow> (Inr None, s3))
                                    else (Inr None, s2))))))))"

section \<open>Concrete inputs\<close>

definition frame_xyz :: DataFrame where
  "frame_xyz = \<lparr>df_cols = [(''x'', [Fin 0, Fin 1]), (''y'', [Fin 0, Fin 0]), (''z'', [Fin 0, Fin 0])], df_index = [0, 1]\<rparr>"

definition frame_red_normals :: DataFrame where
  "frame_red_normals =
     \<lparr>df_cols = [(''x'', [Fin 0]), (''y'', [Fin 0]), (''z'', [Fin 0]), (''red'', [Fin 7]),
                 (''n_x'', [Fin 0]), (''n_y'', [Fin 0]), (''n_z'', [Fin 1])],
      df_index = [0]\<rparr>"

definition faces_no_rows :: DataFrame where
  "faces_no_rows = \<lparr>df_cols = [(''p1'', []), (''p2'', []), (''p3'', [])], df_index = []\<rparr>"

definition faces_uv :: DataFrame where
  "faces_uv = \<lparr>df_cols = [(''p1'', [Fin 0]), (''p2'', [Fin 1]), (''p3'', [Fin 2]),
      (''uv1_row'', [Fin 0]), (''uv1_col'', [Fin 0]), (''uv2_row'', [Fin 0]), (''uv2_col'', [Fin 1]),
      (''uv3_row'', [Fin 1]), (''uv3_col'', [Fin 0])], df_index = [0]\<rparr>"

definition faces_one :: DataFrame where
  "faces_one = \<lparr>df_cols = [(''p1'', [Fin 0]), (''p2'', [Fin 1]), (''p3'', [Fin 2])], df_index = [0]\<rparr>"

definition faces_uv_no_rows :: DataFrame where
  "faces_uv_no_rows = \<lparr>df_cols = [(''p1'', []), (''p2'', []), (''p3'', []),
      (''uv1_row'', []), (''uv1_col'', []), (''uv2_row'', []), (''uv2_col'', []),
      (''uv3_row'', []), (''uv3_col'', [])], df_index = []\<rparr>"

definition mesh_textured :: Mesh where
  "mesh_textured = \<lparr>pcd = \<lparr>df = Some frame_xyz, o3d_pcd = None\<rparr>, mesh_df = Some faces_uv,
     o3d_mesh = None, image_texture_path = Some ''texture.png''\<rparr>"

definition mesh_no_faces :: Mesh where
  "mesh_no_faces = \<lparr>pcd = \<lparr>df = Some frame_xyz, o3d_pcd = None\<rparr>, mesh_df = Some faces_no_rows,
     o3d_mesh = None, image_texture_path = None\<rparr>"

definition frame_rgb :: DataFrame where
  "frame_rgb = \<lparr>df_cols = [(''x'', [Fin 0, Fin 1]), (''y'', [Fin 0, Fin 0]), (''z'', [Fin 0, Fin 0]),
      (''red'', [Fin 0, Fin 10]), (''green'', [Fin 5, Fin 5]), (''blue'', [Fin 5, Fin 5])], df_index = [0, 1]\<rparr>"

definition frame_grey :: DataFrame where
  "frame_grey = \<lparr>df_cols = [(''x'', [Fin 0, Fin 1]), (''y'', [Fin 0, Fin 0]), (''z'', [Fin 0, Fin 0]),
      (''red'', [Fin 7, Fin 7]), (''green'', [Fin 7, Fin 7]), (''blue'', [Fin 7, Fin 7])], df_index = [0, 1]\<rparr>"

definition frame_big :: DataFrame where
  "frame_big = \<lparr>df_cols = [(''x'', [Fin 0, Fin 1]), (''y'', [Fin 0, Fin 0]), (''z'', [Fin 0, Fin 0]),
      (''red'', [Fin (- (2 ^ 1023)), Fin (2 ^ 1023)]), (''green'', [Fin 0, Fin 0]),
      (''blue'', [Fin 0, Fin 0])], df_index = [0, 1]\<rparr>"

definition frame_inf :: DataFrame where
  "frame_inf = \<lparr>df_cols = [(''x'', [Fin 0, Fin 1]), (''y'', [Fin 0, Fin 0]), (''z'', [Fin 0, Fin 0]),
      (''red'', [PInf, PInf]), (''green'', [PInf, PInf]), (''blue'', [PInf, PInf])],
     df_index = [0, 1]\<rparr>"

definition o3d_two_points :: O3dPointCloud where
  "o3d_two_points = \<lparr>points = [[Fin 0, Fin 0, Fin 0], [Fin 1, Fin 0, Fin 0]], colors = [], normals = []\<rparr>"

definition o3d_mesh_two_points :: O3dTriangleMesh where
  "o3d_mesh_two_points = \<lparr>vertices = [[Fin 0, Fin 0, Fin 0], [Fin 1, Fin 0, Fin 0]], triangles = [], vertex_colors = [],
     vertex_normals = [], triangle_uvs = [], textures = []\<rparr>"

text \<open>
  An environment to run the pipeline in: the world is the list of the paths of the files
  that exist; the machine state is the Mesh itself; the action \<open>mesh\<close> gives the data a
  face table of one triangle and any other action leaves the data as they are.
\<close>

definition mesh_cloud_only :: Mesh where
  "mesh_cloud_only = \<lparr>pcd = \<lparr>df = Some frame_xyz, o3d_pcd = None\<rparr>, mesh_df = None,
     o3d_mesh = None, image_texture_path = None\<rparr>"

definition cfg_two_steps :: cfg where
  "cfg_two_steps = \<lparr>state_machine =
       [\<lparr>action = ''filter'', method_name = ''radius_o3d'', save_output = None, params = []\<rparr>,
        \<lparr>action = ''mesh'', method_name = ''poisson'', save_output = Some True, params = []\<rparr>],
     output_dir = ''/out'', output_name = None, input_path = ''/in/cloud.laz'',
     initial_state = ''initial_pcd''\<rparr>"

definition cfg_save_first :: cfg where
  "cfg_save_first = \<lparr>state_machine =
       [\<lparr>action = ''filter'', method_name = ''radius_o3d'', save_output = Some True, params = []\<rparr>],
     output_dir = ''/out'', output_name = None, input_path = ''/in/cloud.laz'',
     initial_state = ''initial_pcd''\<rparr>"

definition cfg_no_step :: cfg where
  "cfg_no_step = \<lparr>state_machine = [], output_dir = ''/out'', output_name = None,
     input_path = ''/in/mesh.ply'', initial_state = ''initial_pcd''\<rparr>"

definition test_env :: "cfg \<Rightarrow> Mesh \<Rightarrow> (Mesh, string list) env" where
  "test_env c input =
     \<lparr>check_config = (\<lambda>p w. Inr c),
      save_config_file = (\<lambda>p c w. Inr (w @ [p])),
      logger_add = (\<lambda>p w. Inr w),
      read_input_path = (\<lambda>p w. Inr input),
      Mesh3DMachine = (\<lambda>m st. Inr m),
      machine_initial_state = (\<lambda>m. ''initial_pcd''),
      mesh_data = (\<lambda>m. m),
      check_transitions = (\<lambda>m c. Inr m),
      machine_run = (\<lambda>m st c w.
         Inr (if action st = ''mesh'' then m\<lparr>mesh_df := Some faces_one\<rparr> else m, w)),
      serialize_mesh = (\<lambda>p m e w. Inr (w @ [p])),
      serialize_point_cloud = (\<lambda>p d e w. Inr (w @ [p])),
      makedirs = (\<lambda>p w. Inr w),
      listdir = (\<lambda>d w. Inr (filter (\<lambda>n. CHR ''/'' \<notin> set n)
                   (map (drop (length d + 1)) (filter (\<lambda>p. take (length d + 1) p = d @ ''/'') w)))),
      abspath = (\<lambda>p w. p)\<rparr>"

text \<open>
  Environments for the filters: Open3D keeps the positions \<open>kept\<close>; the tree is the
  array of the points; the query answers for the cloud of \<open>frame_xyz\<close>, whose two points
  are at distance 1.
\<close>

definition test_filter_env :: "int list \<Rightarrow> (f64 list list, string list) filter_env" where
  "test_filter_env kept =
     \<lparr>remove_radius_outlier = (\<lambda>data nb_points radius. Inr kept),
      remove_statistical_outlier = (\<lambda>data nb_neighbors std_ratio. Inr kept),
      KDTree = (\<lambda>data. Inr data),
      query = (\<lambda>tree p k. Inr ([0, 1], if p = [Fin 0, Fin 0, Fin 0] then [0, 1] else [1, 0])),
      handling_serialize_point_cloud = (\<lambda>path d w. Inr (w @ [path]))\<rparr>"

section \<open>Properties of the handlers\<close>

lemma any_py_iff: "any_py bs = (True \<in> set bs)"
  by (induction bs) auto

lemma all_py_iff: "all_py bs = (False \<notin> set bs)"
  by (induction bs) auto

lemma df_columns_head: "df_columns (df_head d) = df_columns d"
  by (force simp: df_head_def df_columns_def)

lemma has_colors_Some:
  "df pc = Some d \<Longrightarrow> has_colors pc = Inr (\<exists>c\<in>set COLORS. c \<in> set (df_columns d))"
  by (auto simp: has_colors_def any_py_iff df_columns_head df_contains_def)

lemma has_normals_Some:
  "df pc = Some d \<Longrightarrow> has_normals pc = Inr (set NORMALS \<subseteq> set (df_columns d))"
  by (auto simp: has_normals_def all_py_iff df_columns_head df_contains_def)

text \<open>
  Claim C1. For a PointCloud with an assigned DataFrame, \<open>has_colors\<close> is true exactly when
  at least one of the columns red, green, blue, nir is present, and \<open>has_normals\<close> is true
  exactly when the three columns n_x, n_y, n_z are all present. A PointCloud constructed
  from a DataFrame with none of these columns has both predicates false.
\<close>

theorem has_colors_has_normals_iff:
  "(df pc = Some d \<longrightarrow>
      has_colors pc = Inr (set (df_columns d) \<inter> {''red'', ''green'', ''blue'', ''nir''} \<noteq> {})
    \<and> has_normals pc = Inr ({''n_x'', ''n_y'', ''n_z''} \<subseteq> set (df_columns d)))
   \<and> (PointCloud_init (Some (Is d0)) o3 = Inr p0
        \<and> set (df_columns d0) \<inter> {''red'', ''green'', ''blue'', ''nir'', ''n_x'', ''n_y'', ''n_z''} = {}
      \<longrightarrow> has_colors p0 = Inr False \<and> has_normals p0 = Inr False)"
proof (intro conjI impI)
  assume a: "df pc = Some d"
  show "has_colors pc = Inr (set (df_columns d) \<inter> {''red'', ''green'', ''blue'', ''nir''} \<noteq> {})"
    using has_colors_Some [OF a] by (auto simp: COLORS_def)
  show "has_normals pc = Inr ({''n_x'', ''n_y'', ''n_z''} \<subseteq> set (df_columns d))"
    using has_normals_Some [OF a] by (simp add: NORMALS_def)
next
  assume b: "PointCloud_init (Some (Is d0)) o3 = Inr p0
        \<and> set (df_columns d0) \<inter> {''red'', ''green'', ''blue'', ''nir'', ''n_x'', ''n_y'', ''n_z''} = {}"
  then have p: "df p0 = Some d0"
    by (auto simp: PointCloud_init_def split: option.splits pyarg.splits)
  show "has_colors p0 = Inr False"
    using has_colors_Some [OF p] b by (auto simp: COLORS_def)
  show "has_normals p0 = Inr False"
    using has_normals_Some [OF p] b by (auto simp: NORMALS_def)
qed

theorem has_colors_has_normals_iff_witness:
  "df \<lparr>df = Some frame_red_normals, o3d_pcd = None\<rparr> = Some frame_red_normals
   \<and> has_colors \<lparr>df = Some frame_red_normals, o3d_pcd = None\<rparr> = Inr True
   \<and> has_normals \<lparr>df = Some frame_red_normals, o3d_pcd = None\<rparr> = Inr True
   \<and> PointCloud_init (Some (Is frame_xyz)) None = Inr \<lparr>df = Some frame_xyz, o3d_pcd = None\<rparr>
   \<and> has_colors \<lparr>df = Some frame_xyz, o3d_pcd = None\<rparr> = Inr False
   \<and> has_normals \<lparr>df = Some frame_xyz, o3d_pcd = None\<rparr> = Inr False"
  using has_colors_has_normals_iff [of "\<lparr>df = Some frame_red_normals, o3d_pcd = None\<rparr>"
      frame_red_normals frame_xyz None "\<lparr>df = Some frame_xyz, o3d_pcd = None\<rparr>"]
  by (simp add: frame_red_normals_def frame_xyz_def df_columns_def PointCloud_init_def)

text \<open>
  Claim C10. While the DataFrame of a PointCloud is unassigned (\<open>None\<close>), each of
  \<open>has_colors\<close>, \<open>has_normals\<close> and \<open>has_classes\<close> raises the ValueError
  "Point cloud (pandas DataFrame) is not assigned." instead of returning false; with a
  DataFrame assigned each of them returns a boolean.
\<close>

theorem predicates_unassigned_raise:
  "(df pc = None \<longrightarrow>
      has_colors pc = Inl (ValueError ''Point cloud (pandas DataFrame) is not assigned.'')
    \<and> has_normals pc = Inl (ValueError ''Point cloud (pandas DataFrame) is not assigned.'')
    \<and> has_classes pc = Inl (ValueError ''Point cloud (pandas DataFrame) is not assigned.''))
   \<and> (df pc \<noteq> None \<longrightarrow>
        (\<exists>b1 b2 b3. has_colors pc = Inr b1 \<and> has_normals pc = Inr b2 \<and> has_classes pc = Inr b3))"
  by (auto simp: has_colors_def has_normals_def has_classes_def not_assigned_pcd_def)

theorem predicates_unassigned_raise_witness:
  "df \<lparr>df = None, o3d_pcd = None\<rparr> = None
   \<and> has_colors \<lparr>df = None, o3d_pcd = None\<rparr> = Inl (ValueError ''Point cloud (pandas DataFrame) is not assigned.'')
   \<and> has_normals \<lparr>df = None, o3d_pcd = None\<rparr> = Inl (ValueError ''Point cloud (pandas DataFrame) is not assigned.'')
   \<and> has_classes \<lparr>df = None, o3d_pcd = None\<rparr> = Inl (ValueError ''Point cloud (pandas DataFrame) is not assigned.'')
   \<and> df \<lparr>df = Some frame_xyz, o3d_pcd = None\<rparr> \<noteq> None
   \<and> (\<exists>b1 b2 b3. has_colors \<lparr>df = Some frame_xyz, o3d_pcd = None\<rparr> = Inr b1
         \<and> has_normals \<lparr>df = Some frame_xyz, o3d_pcd = None\<rparr> = Inr b2
         \<and> has_classes \<lparr>df = Some frame_xyz, o3d_pcd = None\<rparr> = Inr b3)"
  using predicates_unassigned_raise [of "\<lparr>df = None, o3d_pcd = None\<rparr>"]
    predicates_unassigned_raise [of "\<lparr>df = Some frame_xyz, o3d_pcd = None\<rparr>"]
  by simp

lemma has_texture_Some:
  "mesh_df m = Some d \<Longrightarrow>
   has_texture m = Inr (image_texture_path m \<noteq> None \<and> set UVS \<subseteq> set (df_columns d) \<and> \<not> df_empty d)"
  by (auto simp: has_texture_def all_py_iff df_columns_head df_contains_def UVS_def)

text \<open>
  Claim C2. For a Mesh with an assigned face DataFrame, \<open>has_texture\<close> is true exactly when
  the image-texture path is set, the six UV columns are all present and the face table is
  not empty. Hence it is false after the path is unset, when some UV column is missing,
  and when the face table is empty.
\<close>

theorem has_texture_iff:
  "mesh_df m = Some d \<Longrightarrow>
     has_texture m = Inr (image_texture_path m \<noteq> None
        \<and> {''uv1_row'', ''uv1_col'', ''uv2_row'', ''uv2_col'', ''uv3_row'', ''uv3_col''} \<subseteq> set (df_columns d)
        \<and> \<not> df_empty d)
   \<and> has_texture (set_image_texture_path m None) = Inr False
   \<and> (c \<in> {''uv1_row'', ''uv1_col'', ''uv2_row'', ''uv2_col'', ''uv3_row'', ''uv3_col''}
        \<and> c \<notin> set (df_columns d) \<longrightarrow> has_texture m = Inr False)
   \<and> (df_empty d \<longrightarrow> has_texture m = Inr False)"
proof -
  assume a: "mesh_df m = Some d"
  have b: "mesh_df (set_image_texture_path m None) = Some d"
    using a by (simp add: set_image_texture_path_def)
  show ?thesis
    using has_texture_Some [OF a] has_texture_Some [OF b]
    by (auto simp: UVS_def set_image_texture_path_def)
qed

theorem has_texture_iff_witness:
  "mesh_df mesh_textured = Some faces_uv
   \<and> has_texture mesh_textured = Inr True
   \<and> has_texture (set_image_texture_path mesh_textured None) = Inr False
   \<and> mesh_df (mesh_textured\<lparr>mesh_df := Some faces_one\<rparr>) = Some faces_one
   \<and> has_texture (mesh_textured\<lparr>mesh_df := Some faces_one\<rparr>) = Inr False
   \<and> mesh_df (mesh_textured\<lparr>mesh_df := Some faces_uv_no_rows\<rparr>) = Some faces_uv_no_rows
   \<and> has_texture (mesh_textured\<lparr>mesh_df := Some faces_uv_no_rows\<rparr>) = Inr False"
  using has_texture_iff [of mesh_textured faces_uv "''uv1_row''"]
    has_texture_iff [of "mesh_textured\<lparr>mesh_df := Some faces_one\<rparr>" faces_one "''uv1_row''"]
    has_texture_iff [of "mesh_textured\<lparr>mesh_df := Some faces_uv_no_rows\<rparr>" faces_uv_no_rows "''uv1_row''"]
  by (simp add: mesh_textured_def faces_uv_def faces_one_def faces_uv_no_rows_def
      df_columns_def df_empty_def)

lemma get_colors_guard:
  "has_colors pc = Inr False \<Longrightarrow> get_colors pc = Inl (ValueError ''Point cloud has no color.'')"
  by (simp add: get_colors_def)

lemma get_normals_guard:
  "has_normals pc = Inr False \<Longrightarrow> get_normals pc = Inl (ValueError ''Point cloud has no normals.'')"
  by (simp add: get_normals_def)

lemma get_triangle_uvs_guard:
  "has_triangle_uvs m = Inr False \<Longrightarrow> get_triangle_uvs m = Inl (ValueError ''Mesh has no triangle uvs.'')"
  by (simp add: get_triangle_uvs_def)

lemma select_cols_Inr: "select_cols cs ns = Inr r \<Longrightarrow> set ns \<subseteq> fst ` set cs"
  by (induction ns arbitrary: r) (force split: option.splits sum.splits dest: map_of_SomeD)+

lemma select_cols_Inl: "select_cols cs ns = Inl e \<Longrightarrow> \<exists>c. e = KeyError c"
  by (induction ns) (auto split: option.splits sum.splits)

lemma get_triangles_missing_column:
  assumes "mesh_df m = Some d" and "\<not> {''p1'', ''p2'', ''p3''} \<subseteq> set (df_columns d)"
  shows "\<exists>c. get_triangles m = Inl (KeyError c)"
proof (cases "select_cols (df_cols d) [''p1'', ''p2'', ''p3'']")
  case (Inl e)
  then show ?thesis
    using assms(1) select_cols_Inl [OF Inl] by (auto simp: get_triangles_def df_getitem_list_def)
next
  case (Inr r)
  then show ?thesis
    using assms(2) select_cols_Inr [OF Inr] by (simp add: df_columns_def)
qed

text \<open>
  Claim C3 (the code departs from it). \<open>get_colors\<close>, \<open>get_normals\<close> and
  \<open>get_triangle_uvs\<close> test their predicate and raise (lemmas \<open>get_colors_guard\<close>,
  \<open>get_normals_guard\<close>, \<open>get_triangle_uvs_guard\<close>); \<open>get_triangles\<close> has no such
  test. On a Mesh whose face table has the columns p1, p2, p3 and no row,
  \<open>has_triangles\<close> is false and \<open>get_triangles\<close> returns the (empty) table.
\<close>

theorem get_triangles_no_guard:
  "has_triangles mesh_no_faces = Inr False \<and> get_triangles mesh_no_faces = Inr faces_no_rows"
  by (simp add: mesh_no_faces_def has_triangles_def get_triangles_def faces_no_rows_def
      df_empty_def df_getitem_list_def)

section \<open>Colour normalisation\<close>

lemma max_f64_ge_1: "1 \<le> max_f64"
  by (simp add: max_f64_def)

lemma fminimum_Fin: "fminimum (Fin x) (Fin a) = Fin (min x a)"
  by (simp add: fminimum_def min_def)

lemma fmaximum_Fin: "fmaximum (Fin x) (Fin a) = Fin (max x a)"
  by (simp add: fmaximum_def max_def)

lemma fold_fminimum_Fin: "fold fminimum (map Fin xs) (Fin a) = Fin (fold min xs a)"
  by (induction xs arbitrary: a) (simp_all add: fminimum_Fin)

lemma fold_fmaximum_Fin: "fold fmaximum (map Fin xs) (Fin a) = Fin (fold max xs a)"
  by (induction xs arbitrary: a) (simp_all add: fmaximum_Fin)

lemma finite_values: "\<forall>v\<in>set vs. is_finite v \<Longrightarrow> \<exists>xs. vs = map Fin xs"
proof (induction vs)
  case Nil
  then show ?case by simp
next
  case (Cons v vs)
  then obtain xs where "vs = map Fin xs" by auto
  moreover from Cons.prems obtain x where "v = Fin x"
    by (cases v) (simp_all add: is_finite_def)
  ultimately have "v # vs = map Fin (x # xs)" by simp
  then show ?case by (rule exI)
qed

lemma amin_Fin: "xs \<noteq> [] \<Longrightarrow> amin (map Fin xs) = Inr (Fin (Min (set xs)))"
proof (cases xs)
  case (Cons x ys)
  have "fold min ys x = Min (set (x # ys))" by (rule Min.set_eq_fold [symmetric])
  then show ?thesis using Cons by (simp add: fold_fminimum_Fin)
qed simp

lemma amax_Fin: "xs \<noteq> [] \<Longrightarrow> amax (map Fin xs) = Inr (Fin (Max (set xs)))"
proof (cases xs)
  case (Cons x ys)
  have "fold max ys x = Max (set (x # ys))" by (rule Max.set_eq_fold [symmetric])
  then show ?thesis using Cons by (simp add: fold_fmaximum_Fin)
qed simp

lemma f64_of_real_in_range:
  "- max_f64 \<le> rnd x \<Longrightarrow> rnd x \<le> max_f64 \<Longrightarrow> f64_of_real rnd x = Fin (rnd x)"
  by (simp add: f64_of_real_def Let_def)

lemma f64_of_real_finite:
  "is_finite (f64_of_real rnd x) \<Longrightarrow> f64_of_real rnd x = Fin (rnd x) \<and> rnd x \<le> max_f64"
  by (auto simp: f64_of_real_def Let_def is_finite_def split: if_splits)

lemma f64_of_real_zero: "rnd 0 = 0 \<Longrightarrow> f64_of_real rnd 0 = Fin 0"
  using max_f64_ge_1 by (simp add: f64_of_real_def)


lemma fsub_equal_finite: "rnd 0 = 0 \<Longrightarrow> is_finite mx \<Longrightarrow> fsub rnd mx mx = Fin 0"
  by (cases mx) (simp_all add: is_finite_def f64_of_real_zero)

lemma fold_fminimum_const: "\<forall>v\<in>set vs. v = Fin c \<Longrightarrow> fold fminimum vs (Fin c) = Fin c"
  by (induction vs) (simp_all add: fminimum_Fin)

lemma fold_fmaximum_const: "\<forall>v\<in>set vs. v = Fin c \<Longrightarrow> fold fmaximum vs (Fin c) = Fin c"
  by (induction vs) (simp_all add: fmaximum_Fin)

lemma amin_const: "vs \<noteq> [] \<Longrightarrow> \<forall>v\<in>set vs. v = Fin c \<Longrightarrow> amin vs = Inr (Fin c)"
  by (cases vs) (simp_all add: fold_fminimum_const)

lemma amax_const: "vs \<noteq> [] \<Longrightarrow> \<forall>v\<in>set vs. v = Fin c \<Longrightarrow> amax vs = Inr (Fin c)"
  by (cases vs) (simp_all add: fold_fmaximum_const)

lemma normalize_colors_Inr:
  assumes "normalize_colors rnd a = Inr n"
  shows "\<exists>mn mx. concat a \<noteq> [] \<and> amin (concat a) = Inr mn \<and> amax (concat a) = Inr mx
     \<and> n = map (map (\<lambda>v. if fsub rnd mx mn \<noteq> Fin 0
                          then fdiv rnd (fsub rnd v mn) (fsub rnd mx mn) else Fin 0)) a"
proof (cases "concat a")
  case Nil
  then show ?thesis using assms by (simp add: normalize_colors_def del: concat_eq_Nil_conv)
next
  case (Cons v vs)
  then show ?thesis using assms
    by (simp add: normalize_colors_def del: concat_eq_Nil_conv)
qed

lemma unit_quotient:
  fixes r dd :: real
  assumes "0 \<le> r" "r \<le> dd" "dd \<noteq> 0"
  shows "0 \<le> r / dd \<and> r / dd \<le> 1"
  using assms by (simp add: divide_le_eq_1)

lemma normalized_value_in_unit:
  assumes r: "ieee_rounding rnd"
    and lo: "lo \<le> x" and hi: "x \<le> hi"
    and d: "is_finite (fsub rnd (Fin hi) (Fin lo))"
  shows "\<exists>y. (if fsub rnd (Fin hi) (Fin lo) \<noteq> Fin 0
               then fdiv rnd (fsub rnd (Fin x) (Fin lo)) (fsub rnd (Fin hi) (Fin lo))
               else Fin 0) = Fin y \<and> 0 \<le> y \<and> y \<le> 1"
proof (cases "fsub rnd (Fin hi) (Fin lo) = Fin 0")
  case True
  then show ?thesis by simp
next
  case False
  have mono: "\<And>u v. u \<le> v \<Longrightarrow> rnd u \<le> rnd v" and r0: "rnd 0 = 0" and r1: "rnd 1 = 1"
    using r by (simp_all add: ieee_rounding_def)
  define dd where "dd = rnd (hi - lo)"
  have dfin: "fsub rnd (Fin hi) (Fin lo) = Fin dd" and dmax: "dd \<le> max_f64"
    using f64_of_real_finite [of rnd "hi - lo"] d by (simp_all add: dd_def)
  have dd0: "dd \<noteq> 0" using False dfin by simp
  define q where "q = rnd (x - lo)"
  have "rnd 0 \<le> rnd (x - lo)" using lo by (intro mono) simp
  then have q0: "0 \<le> q" by (simp add: q_def r0)
  have qd: "q \<le> dd" unfolding q_def dd_def using hi by (intro mono) simp
  have qfin: "fsub rnd (Fin x) (Fin lo) = Fin q"
    using q0 qd dmax max_f64_ge_1 f64_of_real_in_range [of rnd "x - lo"] by (simp add: q_def)
  have u: "0 \<le> q / dd \<and> q / dd \<le> 1" using q0 qd dd0 by (rule unit_quotient)
  have "rnd 0 \<le> rnd (q / dd)" using u by (intro mono) simp
  then have y0: "0 \<le> rnd (q / dd)" by (simp add: r0)
  have "rnd (q / dd) \<le> rnd 1" using u by (intro mono) simp
  then have y1: "rnd (q / dd) \<le> 1" by (simp add: r1)
  have "fdiv rnd (Fin q) (Fin dd) = Fin (rnd (q / dd))"
    using dd0 y0 y1 max_f64_ge_1 f64_of_real_in_range [of rnd "q / dd"] by simp
  then show ?thesis using False qfin dfin y0 y1 by simp
qed


lemma normalize_colors_global:
  assumes "normalize_colors rnd a = Inr n"
  shows "\<exists>mn mx. amin (concat a) = Inr mn \<and> amax (concat a) = Inr mx
     \<and> n = map (map (\<lambda>v. if fsub rnd mx mn \<noteq> Fin 0
                          then fdiv rnd (fsub rnd v mn) (fsub rnd mx mn) else Fin 0)) a
     \<and> ((\<forall>v\<in>set (concat a). is_finite v) \<longrightarrow>
           mn \<in> set (concat a) \<and> mx \<in> set (concat a)
           \<and> (\<forall>v\<in>set (concat a). fle mn v \<and> fle v mx))
     \<and> (ieee_rounding rnd \<and> (\<forall>v\<in>set (concat a). is_finite v) \<and> is_finite (fsub rnd mx mn) \<longrightarrow>
           (\<forall>row\<in>set n. \<forall>v\<in>set row. \<exists>x. v = Fin x \<and> 0 \<le> x \<and> x \<le> 1))
     \<and> (rnd 0 = 0 \<and> is_finite mx \<and> mx = mn \<longrightarrow> n = zeros_like a)
     \<and> (rnd 0 = 0 \<and> (\<exists>c. \<forall>v\<in>set (concat a). v = Fin c) \<longrightarrow> n = zeros_like a)"
proof -
  from normalize_colors_Inr [OF assms] obtain mn mx where
    ne: "concat a \<noteq> []" and mn: "amin (concat a) = Inr mn" and mx: "amax (concat a) = Inr mx"
    and n: "n = map (map (\<lambda>v. if fsub rnd mx mn \<noteq> Fin 0
                          then fdiv rnd (fsub rnd v mn) (fsub rnd mx mn) else Fin 0)) a"
    by blast
  have fin: "\<exists>xs. xs \<noteq> [] \<and> concat a = map Fin xs \<and> mn = Fin (Min (set xs)) \<and> mx = Fin (Max (set xs))"
    if "\<forall>v\<in>set (concat a). is_finite v"
  proof -
    from finite_values [OF that] obtain xs where xs: "concat a = map Fin xs" by blast
    then have "xs \<noteq> []" using ne by (simp del: concat_eq_Nil_conv)
    then show ?thesis using xs mn mx amin_Fin [of xs] amax_Fin [of xs] by auto
  qed
  have P1: "mn \<in> set (concat a) \<and> mx \<in> set (concat a) \<and> (\<forall>v\<in>set (concat a). fle mn v \<and> fle v mx)"
    if "\<forall>v\<in>set (concat a). is_finite v"
  proof -
    from fin [OF that] obtain xs where xs: "xs \<noteq> []" "concat a = map Fin xs"
      "mn = Fin (Min (set xs))" "mx = Fin (Max (set xs))" by blast
    have "Min (set xs) \<in> set xs" "Max (set xs) \<in> set xs" using xs(1) by simp_all
    then show ?thesis using xs by (auto simp del: set_concat)
  qed
  have P2: "\<forall>row\<in>set n. \<forall>v\<in>set row. \<exists>x. v = Fin x \<and> 0 \<le> x \<and> x \<le> 1"
    if r: "ieee_rounding rnd" and f: "\<forall>v\<in>set (concat a). is_finite v"
      and d: "is_finite (fsub rnd mx mn)"
  proof (intro ballI)
    fix row v assume row: "row \<in> set n" and v: "v \<in> set row"
    from fin [OF f] obtain xs where xs: "xs \<noteq> []" "concat a = map Fin xs"
      "mn = Fin (Min (set xs))" "mx = Fin (Max (set xs))" by blast
    from row n obtain r0 where r0: "r0 \<in> set a"
      and rw: "row = map (\<lambda>v. if fsub rnd mx mn \<noteq> Fin 0
                          then fdiv rnd (fsub rnd v mn) (fsub rnd mx mn) else Fin 0) r0"
      by auto
    from v obtain v0 where v0: "v0 \<in> set r0"
      and vv: "v = (if fsub rnd mx mn \<noteq> Fin 0
                    then fdiv rnd (fsub rnd v0 mn) (fsub rnd mx mn) else Fin 0)"
      unfolding rw set_map by blast
    have "v0 \<in> set (concat a)" using r0 v0 by auto
    then obtain x where x: "v0 = Fin x" "x \<in> set xs" unfolding xs(2) by auto
    have b: "Min (set xs) \<le> x" "x \<le> Max (set xs)" using x(2) by simp_all
    show "\<exists>x. v = Fin x \<and> 0 \<le> x \<and> x \<le> 1"
      using normalized_value_in_unit [OF r b] d unfolding vv x(1) xs(3) xs(4) by blast
  qed
  have P3: "n = zeros_like a" if "rnd 0 = 0" "is_finite mx" "mx = mn"
    using fsub_equal_finite [of rnd mx] that n by (simp add: zeros_like_def)
  have P4: "n = zeros_like a" if r0: "rnd 0 = 0" and c: "\<exists>c. \<forall>v\<in>set (concat a). v = Fin c"
  proof -
    from c obtain c where c: "\<forall>v\<in>set (concat a). v = Fin c" by blast
    have "mn = Fin c" "mx = Fin c"
      using amin_const [OF ne c] amax_const [OF ne c] mn mx by simp_all
    then show ?thesis using P3 [OF r0] by (simp add: is_finite_def)
  qed
  show ?thesis using mn mx n P1 P2 P3 P4 by blast
qed


text \<open>
  The array that is normalised holds the red, green and blue cells of every point: one
  row per point, one column per channel.
\<close>

lemma set_column_map:
  "length vs = n \<Longrightarrow>
   set_column (map f [0..<n]) k vs = Inr (map (\<lambda>i. (f i)[k := vs ! i]) [0..<n])"
  by (auto simp: set_column_def list_eq_iff_nth_eq)

lemma rgb_array_rows:
  assumes "map_of (df_cols d) ''x'' = Some xs" and "map_of (df_cols d) ''y'' = Some ys"
    and "map_of (df_cols d) ''z'' = Some zs"
    and "map_of (df_cols d) ''red'' = Some r" and "map_of (df_cols d) ''green'' = Some g"
    and "map_of (df_cols d) ''blue'' = Some b"
    and "length r = length (df_index d)" and "length g = length (df_index d)"
    and "length b = length (df_index d)"
  shows "rgb_array d = Inr (map (\<lambda>i. [r ! i, g ! i, b ! i]) [0..<length (df_index d)])"
proof -
  have c: "df_contains d ''red''" "df_contains d ''green''" "df_contains d ''blue''"
    using assms(4,5,6) by (auto simp: df_contains_def df_columns_def dest: map_of_SomeD intro: rev_image_eqI)
  have z: "zeros_like (df_to_numpy \<lparr>df_cols = [(''x'', xs), (''y'', ys), (''z'', zs)], df_index = df_index d\<rparr>)
      = map (\<lambda>i. [Fin 0, Fin 0, Fin 0]) [0..<length (df_index d)]"
    by (simp add: zeros_like_def df_to_numpy_def)
  show ?thesis
    using assms c
    by (simp add: rgb_array_def df_getitem_list_def z df_getitem_def set_column_map)
qed

lemma set_o3d_colors_Inr:
  assumes "set_o3d_colors rnd pc = Inr pc'"
  shows "\<exists>d p a n. df pc = Some d \<and> o3d_pcd pc = Some p \<and> rgb_array d = Inr a
      \<and> normalize_colors rnd a = Inr n \<and> pc' = pc\<lparr>o3d_pcd := Some (p\<lparr>colors := n\<rparr>)\<rparr>"
  using assms by (auto simp: set_o3d_colors_def split: option.splits sum.splits)

lemma set_o3d_vertex_colors_Inr:
  assumes "set_o3d_vertex_colors rnd m = Inr m'"
  shows "\<exists>d p a n. df (pcd m) = Some d \<and> o3d_mesh m = Some p \<and> rgb_array d = Inr a
      \<and> normalize_colors rnd a = Inr n \<and> m' = m\<lparr>o3d_mesh := Some (p\<lparr>vertex_colors := n\<rparr>)\<rparr>"
  using assms by (auto simp: set_o3d_vertex_colors_def split: option.splits sum.splits)

text \<open>
  Claim C4, as the code has it, in float64 arithmetic with any rounding \<open>rnd\<close>. When
  \<open>set_o3d_colors\<close> (point cloud) or \<open>set_o3d_vertex_colors\<close> (mesh) writes the colours,
  every value \<open>v\<close> of the red, green, blue array is normalised with ONE minimum \<open>mn\<close> and
  ONE maximum \<open>mx\<close>, those of all the values of the three channels of the whole cloud: the
  written value is \<open>(v - mn) / (mx - mn)\<close> where \<open>mx - mn\<close> is not 0, and 0 otherwise. With
  the rounding of IEEE 754, finite colour values and a difference \<open>mx - mn\<close> that does not
  overflow, every written value is a finite number in [0, 1]. When the maximum equals the
  minimum and is finite, every written value is 0; in particular, when all colour values
  of the cloud are equal and finite, the written array is all zeros.
\<close>

theorem colors_normalized_globally:
  "(set_o3d_colors rnd pc = Inr pc' \<longrightarrow>
      (\<exists>d p a n. df pc = Some d \<and> o3d_pcd pc = Some p \<and> rgb_array d = Inr a
         \<and> pc' = pc\<lparr>o3d_pcd := Some (p\<lparr>colors := n\<rparr>)\<rparr>
         \<and> (\<exists>mn mx. amin (concat a) = Inr mn \<and> amax (concat a) = Inr mx
            \<and> n = map (map (\<lambda>v. if fsub rnd mx mn \<noteq> Fin 0
                                 then fdiv rnd (fsub rnd v mn) (fsub rnd mx mn) else Fin 0)) a
            \<and> ((\<forall>v\<in>set (concat a). is_finite v) \<longrightarrow>
                  mn \<in> set (concat a) \<and> mx \<in> set (concat a)
                  \<and> (\<forall>v\<in>set (concat a). fle mn v \<and> fle v mx))
            \<and> (ieee_rounding rnd \<and> (\<forall>v\<in>set (concat a). is_finite v)
                  \<and> is_finite (fsub rnd mx mn) \<longrightarrow>
                  (\<forall>row\<in>set n. \<forall>v\<in>set row. \<exists>x. v = Fin x \<and> 0 \<le> x \<and> x \<le> 1))
            \<and> (rnd 0 = 0 \<and> is_finite mx \<and> mx = mn \<longrightarrow> n = zeros_like a)
            \<and> (rnd 0 = 0 \<and> (\<exists>c. \<forall>v\<in>set (concat a). v = Fin c) \<longrightarrow> n = zeros_like a))))
   \<and> (set_o3d_vertex_colors rnd m = Inr m' \<longrightarrow>
      (\<exists>d p a n. df (pcd m) = Some d \<and> o3d_mesh m = Some p \<and> rgb_array d = Inr a
         \<and> m' = m\<lparr>o3d_mesh := Some (p\<lparr>vertex_colors := n\<rparr>)\<rparr>
         \<and> (\<exists>mn mx. amin (concat a) = Inr mn \<and> amax (concat a) = Inr mx
            \<and> n = map (map (\<lambda>v. if fsub rnd mx mn \<noteq> Fin 0
                                 then fdiv rnd (fsub rnd v mn) (fsub rnd mx mn) else Fin 0)) a
            \<and> ((\<forall>v\<in>set (concat a). is_finite v) \<longrightarrow>
                  mn \<in> set (concat a) \<and> mx \<in> set (concat a)
                  \<and> (\<forall>v\<in>set (concat a). fle mn v \<and> fle v mx))
            \<and> (ieee_rounding rnd \<and> (\<forall>v\<in>set (concat a). is_finite v)
                  \<and> is_finite (fsub rnd mx mn) \<longrightarrow>
                  (\<forall>row\<in>set n. \<forall>v\<in>set row. \<exists>x. v = Fin x \<and> 0 \<le> x \<and> x \<le> 1))
            \<and> (rnd 0 = 0 \<and> is_finite mx \<and> mx = mn \<longrightarrow> n = zeros_like a)
            \<and> (rnd 0 = 0 \<and> (\<exists>c. \<forall>v\<in>set (concat a). v = Fin c) \<longrightarrow> n = zeros_like a))))"
proof (intro conjI impI)
  assume "set_o3d_colors rnd pc = Inr pc'"
  from set_o3d_colors_Inr [OF this] obtain d p a n where
    h: "df pc = Some d" "o3d_pcd pc = Some p" "rgb_array d = Inr a"
      "normalize_colors rnd a = Inr n" "pc' = pc\<lparr>o3d_pcd := Some (p\<lparr>colors := n\<rparr>)\<rparr>"
    by blast
  show "\<exists>d p a n. df pc = Some d \<and> o3d_pcd pc = Some p \<and> rgb_array d = Inr a
         \<and> pc' = pc\<lparr>o3d_pcd := Some (p\<lparr>colors := n\<rparr>)\<rparr>
         \<and> (\<exists>mn mx. amin (concat a) = Inr mn \<and> amax (concat a) = Inr mx
            \<and> n = map (map (\<lambda>v. if fsub rnd mx mn \<noteq> Fin 0
                                 then fdiv rnd (fsub rnd v mn) (fsub rnd mx mn) else Fin 0)) a
            \<and> ((\<forall>v\<in>set (concat a). is_finite v) \<longrightarrow>
                  mn \<in> set (concat a) \<and> mx \<in> set (concat a)
                  \<and> (\<forall>v\<in>set (concat a). fle mn v \<and> fle v mx))
            \<and> (ieee_rounding rnd \<and> (\<forall>v\<in>set (concat a). is_finite v)
                  \<and> is_finite (fsub rnd mx mn) \<longrightarrow>
                  (\<forall>row\<in>set n. \<forall>v\<in>set row. \<exists>x. v = Fin x \<and> 0 \<le> x \<and> x \<le> 1))
            \<and> (rnd 0 = 0 \<and> is_finite mx \<and> mx = mn \<longrightarrow> n = zeros_like a)
            \<and> (rnd 0 = 0 \<and> (\<exists>c. \<forall>v\<in>set (concat a). v = Fin c) \<longrightarrow> n = zeros_like a))"
    using h(1,2,3,5) normalize_colors_global [OF h(4)] by blast
next
  assume "set_o3d_vertex_colors rnd m = Inr m'"
  from set_o3d_vertex_colors_Inr [OF this] obtain d p a n where
    h: "df (pcd m) = Some d" "o3d_mesh m = Some p" "rgb_array d = Inr a"
      "normalize_colors rnd a = Inr n" "m' = m\<lparr>o3d_mesh := Some (p\<lparr>vertex_colors := n\<rparr>)\<rparr>"
    by blast
  show "\<exists>d p a n. df (pcd m) = Some d \<and> o3d_mesh m = Some p \<and> rgb_array d = Inr a
         \<and> m' = m\<lparr>o3d_mesh := Some (p\<lparr>vertex_colors := n\<rparr>)\<rparr>
         \<and> (\<exists>mn mx. amin (concat a) = Inr mn \<and> amax (concat a) = Inr mx
            \<and> n = map (map (\<lambda>v. if fsub rnd mx mn \<noteq> Fin 0
                                 then fdiv rnd (fsub rnd v mn) (fsub rnd mx mn) else Fin 0)) a
            \<and> ((\<forall>v\<in>set (concat a). is_finite v) \<longrightarrow>
                  mn \<in> set (concat a) \<and> mx \<in> set (concat a)
                  \<and> (\<forall>v\<in>set (concat a). fle mn v \<and> fle v mx))
            \<and> (ieee_rounding rnd \<and> (\<forall>v\<in>set (concat a). is_finite v)
                  \<and> is_finite (fsub rnd mx mn) \<longrightarrow>
                  (\<forall>row\<in>set n. \<forall>v\<in>set row. \<exists>x. v = Fin x \<and> 0 \<le> x \<and> x \<le> 1))
            \<and> (rnd 0 = 0 \<and> is_finite mx \<and> mx = mn \<longrightarrow> n = zeros_like a)
            \<and> (rnd 0 = 0 \<and> (\<exists>c. \<forall>v\<in>set (concat a). v = Fin c) \<longrightarrow> n = zeros_like a))"
    using h(1,2,3,5) normalize_colors_global [OF h(4)] by blast
qed

lemma ieee_rounding_exact: "ieee_rounding (\<lambda>x. x)"
  by (simp add: ieee_rounding_def)

lemma rgb_array_frame_rgb:
  "rgb_array frame_rgb = Inr [[Fin 0, Fin 5, Fin 5], [Fin 10, Fin 5, Fin 5]]"
  by (simp add: rgb_array_def frame_rgb_def df_getitem_list_def df_to_numpy_def zeros_like_def
      df_contains_def df_columns_def df_getitem_def set_column_def)

lemma rgb_array_frame_grey:
  "rgb_array frame_grey = Inr [[Fin 7, Fin 7, Fin 7], [Fin 7, Fin 7, Fin 7]]"
  by (simp add: rgb_array_def frame_grey_def df_getitem_list_def df_to_numpy_def zeros_like_def
      df_contains_def df_columns_def df_getitem_def set_column_def)

lemma rgb_array_frame_big:
  "rgb_array frame_big = Inr [[Fin (- (2 ^ 1023)), Fin 0, Fin 0], [Fin (2 ^ 1023), Fin 0, Fin 0]]"
  by (simp add: rgb_array_def frame_big_def df_getitem_list_def df_to_numpy_def zeros_like_def
      df_contains_def df_columns_def df_getitem_def set_column_def)

lemma rgb_array_frame_inf:
  "rgb_array frame_inf = Inr [[PInf, PInf, PInf], [PInf, PInf, PInf]]"
  by (simp add: rgb_array_def frame_inf_def df_getitem_list_def df_to_numpy_def zeros_like_def
      df_contains_def df_columns_def df_getitem_def set_column_def)

text \<open>
  Claim C4 as stated fails, in three ways. The rounding is exact here: on these inputs
  every exact result is a binary64 number (or exceeds the largest one), so float64
  computes the same values.
  \<^item> The normalisation is not per channel: with red = 0, 10 and green = blue = 5, 5 the
    green and blue channels have maximum equal to minimum, and the written green and blue
    values are 1/2, not 0.
  \<^item> The written values need not be in [0, 1]: with the finite values red = -2^1023, 2^1023
    and green = blue = 0, the difference of maximum and minimum overflows to infinity and
    a written value is NaN.
  \<^item> Equal values need not give zeros: when every colour value is +infinity, maximum
    equals minimum and every written value is NaN.
\<close>

theorem colors_per_channel_counterexample:
  "set_o3d_colors (\<lambda>x. x) \<lparr>df = Some frame_rgb, o3d_pcd = Some o3d_two_points\<rparr>
     = Inr \<lparr>df = Some frame_rgb,
            o3d_pcd = Some (o3d_two_points\<lparr>colors :=
              [[Fin 0, Fin (1/2), Fin (1/2)], [Fin 1, Fin (1/2), Fin (1/2)]]\<rparr>)\<rparr>
   \<and> rgb_array frame_rgb = Inr [[Fin 0, Fin 5, Fin 5], [Fin 10, Fin 5, Fin 5]]
   \<and> spec_normalize_per_channel (\<lambda>x. x) [[Fin 0, Fin 5, Fin 5], [Fin 10, Fin 5, Fin 5]]
       = [[Fin 0, Fin 0, Fin 0], [Fin 1, Fin 0, Fin 0]]
   \<and> [[Fin 0, Fin (1/2), Fin (1/2)], [Fin 1, Fin (1/2), Fin (1/2)]]
       \<noteq> spec_normalize_per_channel (\<lambda>x. x) [[Fin 0, Fin 5, Fin 5], [Fin 10, Fin 5, Fin 5]]
   \<and> set_o3d_colors (\<lambda>x. x) \<lparr>df = Some frame_big, o3d_pcd = Some o3d_two_points\<rparr>
     = Inr \<lparr>df = Some frame_big,
            o3d_pcd = Some (o3d_two_points\<lparr>colors :=
              [[Fin 0, Fin 0, Fin 0], [NaN, Fin 0, Fin 0]]\<rparr>)\<rparr>
   \<and> set_o3d_colors (\<lambda>x. x) \<lparr>df = Some frame_inf, o3d_pcd = Some o3d_two_points\<rparr>
     = Inr \<lparr>df = Some frame_inf,
            o3d_pcd = Some (o3d_two_points\<lparr>colors :=
              [[NaN, NaN, NaN], [NaN, NaN, NaN]]\<rparr>)\<rparr>"
  by (simp add: set_o3d_colors_def rgb_array_frame_rgb rgb_array_frame_big rgb_array_frame_inf
      normalize_colors_def spec_normalize_per_channel_def channel_def Let_def
      fminimum_def fmaximum_def f64_of_real_def max_f64_def)

theorem colors_normalized_globally_witness:
  "ieee_rounding (\<lambda>x. x)
   \<and> set_o3d_colors (\<lambda>x. x) \<lparr>df = Some frame_grey, o3d_pcd = Some o3d_two_points\<rparr>
     = Inr \<lparr>df = Some frame_grey,
            o3d_pcd = Some (o3d_two_points\<lparr>colors :=
              [[Fin 0, Fin 0, Fin 0], [Fin 0, Fin 0, Fin 0]]\<rparr>)\<rparr>
   \<and> set_o3d_vertex_colors (\<lambda>x. x) \<lparr>pcd = \<lparr>df = Some frame_rgb, o3d_pcd = None\<rparr>, mesh_df = None,
         o3d_mesh = Some o3d_mesh_two_points, image_texture_path = None\<rparr>
     = Inr \<lparr>pcd = \<lparr>df = Some frame_rgb, o3d_pcd = None\<rparr>, mesh_df = None,
         o3d_mesh = Some (o3d_mesh_two_points\<lparr>vertex_colors :=
           [[Fin 0, Fin (1/2), Fin (1/2)], [Fin 1, Fin (1/2), Fin (1/2)]]\<rparr>),
         image_texture_path = None\<rparr>"
  using colors_normalized_globally [of "\<lambda>x. x"
     "\<lparr>df = Some frame_grey, o3d_pcd = Some o3d_two_points\<rparr>"
     "\<lparr>df = Some frame_grey, o3d_pcd = Some (o3d_two_points\<lparr>colors :=
              [[Fin 0, Fin 0, Fin 0], [Fin 0, Fin 0, Fin 0]]\<rparr>)\<rparr>"
     "\<lparr>pcd = \<lparr>df = Some frame_rgb, o3d_pcd = None\<rparr>, mesh_df = None,
         o3d_mesh = Some o3d_mesh_two_points, image_texture_path = None\<rparr>"
     "\<lparr>pcd = \<lparr>df = Some frame_rgb, o3d_pcd = None\<rparr>, mesh_df = None,
         o3d_mesh = Some (o3d_mesh_two_points\<lparr>vertex_colors :=
           [[Fin 0, Fin (1/2), Fin (1/2)], [Fin 1, Fin (1/2), Fin (1/2)]]\<rparr>),
         image_texture_path = None\<rparr>"]
  by (simp add: ieee_rounding_exact set_o3d_colors_def set_o3d_vertex_colors_def
      rgb_array_frame_rgb rgb_array_frame_grey normalize_colors_def
      fminimum_def fmaximum_def f64_of_real_def max_f64_def)

section \<open>The pipeline\<close>

text \<open>
  Claim C5. With an empty step list, \<open>run\<close> returns the data held by the machine as they
  are, logs one warning, leaves the outside world as it is (no call of a collaborator, so
  no transition and no file), whatever the collaborators would have done.
\<close>

theorem run_empty_step_list:
  "state_machine c = [] \<Longrightarrow>
   run E mesh3d_machine c s =
     (Inr (mesh_data E mesh3d_machine),
      s\<lparr>trace := trace s @ [Log WARNING ''State machine is empty. Returning the initial data.'']\<rparr>)"
  by (simp add: run_def logger_def)

theorem run_empty_step_list_witness:
  "state_machine cfg_no_step = []
   \<and> run (test_env cfg_no_step mesh_textured) mesh_textured cfg_no_step
        \<lparr>world = [''/in/mesh.ply''], trace = []\<rparr>
     = (Inr mesh_textured,
        \<lparr>world = [''/in/mesh.ply''],
         trace = [Log WARNING ''State machine is empty. Returning the initial data.'']\<rparr>)"
  using run_empty_step_list [of cfg_no_step "test_env cfg_no_step mesh_textured" mesh_textured
      "\<lparr>world = [''/in/mesh.ply''], trace = []\<rparr>"]
  by (simp add: cfg_no_step_def test_env_def)

lemma io_call_Inr:
  "f (world s) = Inr w \<Longrightarrow> io_call ev f s = (Inr (), s\<lparr>world := w, trace := trace s @ [ev]\<rparr>)"
  by (simp add: io_call_def)

lemma io_call_Inl:
  "f (world s) = Inl e \<Longrightarrow> io_call ev f s = (Inl e, s\<lparr>trace := trace s @ [ev]\<rparr>)"
  by (simp add: io_call_def)

lemma io_call_trace: "trace (snd (io_call ev f s)) = trace s @ [ev]"
  by (simp add: io_call_def split: sum.splits)

lemma io_call_fst: "fst (io_call ev f s) = Inr () \<longleftrightarrow> (\<exists>w. f (world s) = Inr w)"
  by (simp add: io_call_def split: sum.splits)

text \<open>
  Claim C7, as the code has it. The data returned by the run are serialised by the test
  \<open>out_mesh.df is not None\<close>: a Mesh whose face table is absent (\<open>None\<close>) goes through the
  point-cloud path with the extension laz; a Mesh whose face table is assigned, with or
  without rows, goes through the mesh path with the extension ply.
\<close>

theorem main_serialize_by_face_table:
  "(mesh_df out_mesh = None \<longrightarrow>
      trace (snd (main_serialize E c out_mesh s)) =
        trace s @ [Serialize_point_cloud
                     (path_join (output_dir c)
                        ((case output_name c of None \<Rightarrow> ''output_mesh3d'' | Some n \<Rightarrow> n) @ ''.laz''))
                     ''laz'']
          @ (if fst (main_serialize E c out_mesh s) = Inr ()
             then [Log INFO ''Point cloud serialized as a 'laz' file''] else []))
   \<and> (mesh_df out_mesh = Some d \<longrightarrow>
      trace (snd (main_serialize E c out_mesh s)) =
        trace s @ [Serialize_mesh
                     (path_join (output_dir c)
                        ((case output_name c of None \<Rightarrow> ''output_mesh3d'' | Some n \<Rightarrow> n) @ ''.ply''))
                     ''ply'']
          @ (if fst (main_serialize E c out_mesh s) = Inr ()
             then [Log INFO ''Mesh serialized as a 'ply' file''] else []))"
  by (auto simp: main_serialize_def Mesh_serialize_def PointCloud_serialize_def io_call_def
      logger_def Let_def split: sum.splits option.splits)


theorem main_serialize_by_face_table_witness:
  "mesh_df mesh_cloud_only = None
   \<and> trace (snd (main_serialize (test_env cfg_no_step mesh_cloud_only) cfg_no_step mesh_cloud_only
         \<lparr>world = [], trace = []\<rparr>))
      = [Serialize_point_cloud ''/out/output_mesh3d.laz'' ''laz'',
         Log INFO ''Point cloud serialized as a 'laz' file'']
   \<and> mesh_df mesh_textured = Some faces_uv
   \<and> trace (snd (main_serialize (test_env cfg_no_step mesh_textured) cfg_no_step mesh_textured
         \<lparr>world = [], trace = []\<rparr>))
      = [Serialize_mesh ''/out/output_mesh3d.ply'' ''ply'',
         Log INFO ''Mesh serialized as a 'ply' file'']"
  using main_serialize_by_face_table [of mesh_cloud_only "test_env cfg_no_step mesh_cloud_only"
      cfg_no_step "\<lparr>world = [], trace = []\<rparr>" faces_uv]
    main_serialize_by_face_table [of mesh_textured "test_env cfg_no_step mesh_textured"
      cfg_no_step "\<lparr>world = [], trace = []\<rparr>" faces_uv]
  by (simp add: mesh_cloud_only_def mesh_textured_def cfg_no_step_def test_env_def path_join_def
      main_serialize_def Mesh_serialize_def PointCloud_serialize_def io_call_def logger_def Let_def)

text \<open>
  Claim C7 as stated fails for an empty face table: a Mesh whose face table is assigned and
  has no row (its own \<open>has_triangles\<close> is false) is written through the mesh path, as ply.
\<close>

theorem empty_face_table_serialized_as_mesh_counterexample:
  "df_empty faces_no_rows
   \<and> mesh_df mesh_no_faces = Some faces_no_rows
   \<and> has_triangles mesh_no_faces = Inr False
   \<and> main (test_env cfg_no_step mesh_no_faces) ''conf/cfg.json'' \<lparr>world = [], trace = []\<rparr>
     = (Inr (),
        \<lparr>world = [''/out/cfg.json'', ''/out/output_mesh3d.ply''],
         trace = [Makedirs ''/out'', Log INFO ''Configuration file checked.'',
                  Log WARNING ''State machine is empty. Returning the initial data.'',
                  Serialize_mesh ''/out/output_mesh3d.ply'' ''ply'',
                  Log INFO ''Mesh serialized as a 'ply' file'']\<rparr>)"
  by (simp add: mesh_no_faces_def faces_no_rows_def df_empty_def has_triangles_def
      cfg_no_step_def test_env_def path_join_def basename_def main_def run_def
      main_serialize_def Mesh_serialize_def PointCloud_serialize_def io_call_def logger_def Let_def)

lemma run_steps_append:
  "run_steps E c k (xs @ ys) m s =
     (case run_steps E c k xs m s of
        (Inl e, s') \<Rightarrow> (Inl e, s')
      | (Inr m', s') \<Rightarrow> run_steps E c (k + length xs) ys m' s')"
  by (induction xs arbitrary: k m s) (auto simp: Let_def split: sum.splits prod.splits)

lemma save_intermediate_requested:
  assumes req: "save_output st = Some True"
    and mk: "makedirs E (intermediate_folder c) (world s) = Inr w3"
    and ls: "k = 0 \<longrightarrow> listdir E (intermediate_folder c) w3 = Inr names"
    and ser: "(if mesh_df (mesh_data E m) \<noteq> None
               then serialize_mesh E (intermediate_filepath c k st @ ''.ply'') (mesh_data E m) ''ply'' w3
               else serialize_point_cloud E (intermediate_filepath c k st @ ''.laz'')
                      (df (pcd (mesh_data E m))) ''laz'' w3) = Inr w4"
  shows "save_intermediate E c k st m s =
     (Inr (),
      s\<lparr>world := w4,
        trace := trace s @ [Makedirs (intermediate_folder c)]
          @ (if k = 0 \<and> names \<noteq> [] then [Log WARNING (not_empty_warning c)] else [])
          @ (if mesh_df (mesh_data E m) \<noteq> None
             then [Serialize_mesh (intermediate_filepath c k st @ ''.ply'') ''ply'',
                   Log DEBUG (saved_message k (intermediate_filepath c k st @ ''.ply''))]
             else [Serialize_point_cloud (intermediate_filepath c k st @ ''.laz'') ''laz'',
                   Log DEBUG (saved_message k (intermediate_filepath c k st @ ''.laz''))])\<rparr>)"
proof (cases "k = 0")
  case True
  then show ?thesis using req mk ls ser
    by (auto simp: save_intermediate_def io_call_def Mesh_serialize_def PointCloud_serialize_def
        logger_def)
next
  case False
  then show ?thesis using req mk ser
    by (auto simp: save_intermediate_def io_call_def Mesh_serialize_def PointCloud_serialize_def
        logger_def)
qed


lemma world_logger: "world (logger l msg s) = world s"
  by (simp add: logger_def)

lemma digit_not_sign: "n < 10 \<Longrightarrow> digit n \<noteq> CHR ''+'' \<and> digit n \<noteq> CHR ''-''"
proof -
  assume "n < 10"
  then have "digit n \<in> set ''0123456789''"
    unfolding digit_def by (intro nth_mem) simp
  then show ?thesis by auto
qed

lemma str_nat_nonempty: "str_nat n \<noteq> []"
  by (subst str_nat.simps) simp

lemma zfill_one_digit: "n < 10 \<Longrightarrow> zfill (str_nat n) 2 = [CHR ''0'', digit n]"
  using digit_not_sign [of n] by (subst str_nat.simps) (simp add: zfill_def)

lemma zfill_more_digits: "10 \<le> n \<Longrightarrow> zfill (str_nat n) 2 = str_nat n"
proof -
  assume "10 \<le> n"
  then have "str_nat n = str_nat (n div 10) @ [digit (n mod 10)]"
    by (subst str_nat.simps) simp
  moreover have "str_nat (n div 10) \<noteq> []" by (rule str_nat_nonempty)
  ultimately have "2 \<le> length (str_nat n)"
    by (cases "str_nat (n div 10)") simp_all
  then show ?thesis
    by (cases "str_nat n") (simp_all add: zfill_def)
qed

text \<open>
  Claim C8, as the code has it. For every step list \<open>pre @ st # post\<close>: when the steps
  \<open>pre\<close> have run, the action of \<open>st\<close> succeeds and \<open>st\<close> requests the saving of its output,
  the data held by the machine are serialised to
  \<open>output_dir/intermediate_results/NN_action_method.ext\<close>, where NN is the 1-based position
  of the step padded with zeros to two digits and \<open>ext\<close> is ply when a face table is
  assigned and laz otherwise; the warning for a non-empty folder is logged exactly when
  \<open>st\<close> is the first configured step (index 0) and the folder lists some entry; and the
  run goes on with the steps \<open>post\<close>.
\<close>

theorem intermediate_results_saved:
  assumes "run_steps E c 0 pre m s = (Inr m1, s1)"
    and "machine_run E m1 st c (world s1) = Inr (m2, w2)"
    and "save_output st = Some True"
    and "makedirs E (intermediate_folder c) w2 = Inr w3"
    and "pre = [] \<longrightarrow> listdir E (intermediate_folder c) w3 = Inr names"
    and "(if mesh_df (mesh_data E m2) \<noteq> None
          then serialize_mesh E (intermediate_filepath c (length pre) st @ ''.ply'')
                 (mesh_data E m2) ''ply'' w3
          else serialize_point_cloud E (intermediate_filepath c (length pre) st @ ''.laz'')
                 (df (pcd (mesh_data E m2))) ''laz'' w3) = Inr w4"
  shows "run_steps E c 0 (pre @ st # post) m s =
           run_steps E c (length pre + 1) post m2
             (s1\<lparr>world := w4,
                 trace := trace s1
                   @ [Log INFO (step_message (length pre) st), Makedirs (intermediate_folder c)]
                   @ (if pre = [] \<and> names \<noteq> [] then [Log WARNING (not_empty_warning c)] else [])
                   @ (if mesh_df (mesh_data E m2) \<noteq> None
                      then [Serialize_mesh (intermediate_filepath c (length pre) st @ ''.ply'') ''ply'',
                            Log DEBUG (saved_message (length pre)
                                         (intermediate_filepath c (length pre) st @ ''.ply''))]
                      else [Serialize_point_cloud (intermediate_filepath c (length pre) st @ ''.laz'') ''laz'',
                            Log DEBUG (saved_message (length pre)
                                         (intermediate_filepath c (length pre) st @ ''.laz''))])\<rparr>)
         \<and> intermediate_filepath c (length pre) st =
             path_join (path_join (output_dir c) ''intermediate_results'')
               ((if length pre + 1 < 10 then [CHR ''0'', digit (length pre + 1)]
                 else str_nat (length pre + 1))
                @ ''_'' @ action st @ ''_'' @ method_name st)"
proof -
  let ?k = "length pre"
  let ?s1 = "(logger INFO (step_message ?k st) s1)\<lparr>world := w2\<rparr>"
  let ?t = "s1\<lparr>world := w4,
                 trace := trace s1
                   @ [Log INFO (step_message (length pre) st), Makedirs (intermediate_folder c)]
                   @ (if pre = [] \<and> names \<noteq> [] then [Log WARNING (not_empty_warning c)] else [])
                   @ (if mesh_df (mesh_data E m2) \<noteq> None
                      then [Serialize_mesh (intermediate_filepath c (length pre) st @ ''.ply'') ''ply'',
                            Log DEBUG (saved_message (length pre)
                                         (intermediate_filepath c (length pre) st @ ''.ply''))]
                      else [Serialize_point_cloud (intermediate_filepath c (length pre) st @ ''.laz'') ''laz'',
                            Log DEBUG (saved_message (length pre)
                                         (intermediate_filepath c (length pre) st @ ''.laz''))])\<rparr>"
  have k0: "?k = 0 \<longrightarrow> listdir E (intermediate_folder c) w3 = Inr names"
    using assms(5) by simp
  have sv: "save_intermediate E c ?k st m2 ?s1 =
     (Inr (),
      ?s1\<lparr>world := w4,
        trace := trace ?s1 @ [Makedirs (intermediate_folder c)]
          @ (if ?k = 0 \<and> names \<noteq> [] then [Log WARNING (not_empty_warning c)] else [])
          @ (if mesh_df (mesh_data E m2) \<noteq> None
             then [Serialize_mesh (intermediate_filepath c ?k st @ ''.ply'') ''ply'',
                   Log DEBUG (saved_message ?k (intermediate_filepath c ?k st @ ''.ply''))]
             else [Serialize_point_cloud (intermediate_filepath c ?k st @ ''.laz'') ''laz'',
                   Log DEBUG (saved_message ?k (intermediate_filepath c ?k st @ ''.laz''))])\<rparr>)"
    by (rule save_intermediate_requested [OF assms(3) _ k0 assms(6)]) (simp add: assms(4))
  have t: "save_intermediate E c ?k st m2 ?s1 = (Inr (), ?t)"
    by (subst sv) (simp add: logger_def)
  have "run_steps E c 0 (pre @ st # post) m s = run_steps E c ?k (st # post) m1 s1"
    by (simp add: run_steps_append assms(1))
  also have "\<dots> = run_steps E c (?k + 1) post m2 ?t"
    using assms(2) by (simp add: Let_def world_logger t)
  finally have A: "run_steps E c 0 (pre @ st # post) m s = run_steps E c (?k + 1) post m2 ?t" .
  have B: "intermediate_filepath c (length pre) st =
             path_join (path_join (output_dir c) ''intermediate_results'')
               ((if length pre + 1 < 10 then [CHR ''0'', digit (length pre + 1)]
                 else str_nat (length pre + 1))
                @ ''_'' @ action st @ ''_'' @ method_name st)"
    using zfill_one_digit [of "length pre + 1"] zfill_more_digits [of "length pre + 1"]
    by (simp add: intermediate_filepath_def intermediate_folder_def)
  show ?thesis by (rule conjI [OF A B])
qed


theorem intermediate_results_saved_witness:
  "run_steps (test_env cfg_save_first mesh_cloud_only) cfg_save_first 0 [] mesh_cloud_only
       \<lparr>world = [''/out/intermediate_results/old.ply''], trace = []\<rparr>
     = (Inr mesh_cloud_only, \<lparr>world = [''/out/intermediate_results/old.ply''], trace = []\<rparr>)
   \<and> machine_run (test_env cfg_save_first mesh_cloud_only) mesh_cloud_only
         \<lparr>action = ''filter'', method_name = ''radius_o3d'', save_output = Some True, params = []\<rparr>
         cfg_save_first [''/out/intermediate_results/old.ply'']
       = Inr (mesh_cloud_only, [''/out/intermediate_results/old.ply''])
   \<and> listdir (test_env cfg_save_first mesh_cloud_only) (intermediate_folder cfg_save_first)
         [''/out/intermediate_results/old.ply''] = Inr [''old.ply'']
   \<and> run_steps (test_env cfg_save_first mesh_cloud_only) cfg_save_first 0
         [\<lparr>action = ''filter'', method_name = ''radius_o3d'', save_output = Some True, params = []\<rparr>]
         mesh_cloud_only \<lparr>world = [''/out/intermediate_results/old.ply''], trace = []\<rparr>
     = (Inr mesh_cloud_only,
        \<lparr>world = [''/out/intermediate_results/old.ply'',
                  ''/out/intermediate_results/01_filter_radius_o3d.laz''],
         trace = [Log INFO ''Step #1: filter with radius_o3d method'',
                  Makedirs ''/out/intermediate_results'',
                  Log WARNING ''Directory '/out/intermediate_results' is not empty. Some files might be overwritten.'',
                  Serialize_point_cloud ''/out/intermediate_results/01_filter_radius_o3d.laz'' ''laz'',
                  Log DEBUG ''Step #1: Results saved in '/out/intermediate_results/01_filter_radius_o3d.laz'.'']\<rparr>)"
  using intermediate_results_saved [of "test_env cfg_save_first mesh_cloud_only" cfg_save_first "[]"
      mesh_cloud_only "\<lparr>world = [''/out/intermediate_results/old.ply''], trace = []\<rparr>"
      mesh_cloud_only "\<lparr>world = [''/out/intermediate_results/old.ply''], trace = []\<rparr>"
      "\<lparr>action = ''filter'', method_name = ''radius_o3d'', save_output = Some True, params = []\<rparr>"
      mesh_cloud_only "[''/out/intermediate_results/old.ply'']" "[''/out/intermediate_results/old.ply'']"
      "[''old.ply'']"
      "[''/out/intermediate_results/old.ply'', ''/out/intermediate_results/01_filter_radius_o3d.laz'']"
      "[]"]
  by (simp add: test_env_def cfg_save_first_def mesh_cloud_only_def intermediate_folder_def
      intermediate_filepath_def path_join_def zfill_def str_nat.simps digit_def step_message_def
      not_empty_warning_def saved_message_def)

text \<open>
  Claim C8 as stated fails when the first step that saves is not the first configured
  step: the first intermediate write finds the folder non-empty and no warning is logged.
\<close>

theorem warning_only_at_first_step_counterexample:
  "listdir (test_env cfg_two_steps mesh_cloud_only) (intermediate_folder cfg_two_steps)
         [''/out/intermediate_results/old.ply''] = Inr [''old.ply'']
   \<and> run (test_env cfg_two_steps mesh_cloud_only) mesh_cloud_only cfg_two_steps
         \<lparr>world = [''/out/intermediate_results/old.ply''], trace = []\<rparr>
     = (Inr (mesh_cloud_only\<lparr>mesh_df := Some faces_one\<rparr>),
        \<lparr>world = [''/out/intermediate_results/old.ply'',
                  ''/out/intermediate_results/02_mesh_poisson.ply''],
         trace = [Log DEBUG ''Initial state: initial_pcd'',
                  Log INFO ''Step #1: filter with radius_o3d method'',
                  Log INFO ''Step #2: mesh with poisson method'',
                  Makedirs ''/out/intermediate_results'',
                  Serialize_mesh ''/out/intermediate_results/02_mesh_poisson.ply'' ''ply'',
                  Log DEBUG ''Step #2: Results saved in '/out/intermediate_results/02_mesh_poisson.ply'.'']\<rparr>)"
  by (simp add: test_env_def cfg_two_steps_def mesh_cloud_only_def intermediate_folder_def
      intermediate_filepath_def path_join_def zfill_def str_nat.simps digit_def step_message_def
      not_empty_warning_def saved_message_def run_def save_intermediate_def io_call_def
      Mesh_serialize_def PointCloud_serialize_def logger_def Let_def)


section \<open>The outlier filters\<close>

lemma keep_valid_points_not_empty:
  "fst (keep_valid_points FE d ind ser path s) = Inr out \<Longrightarrow> \<not> df_empty out"
  by (auto simp: keep_valid_points_def io_call_def split: sum.splits if_splits)

lemma keep_valid_points_empty:
  "df_loc d ind = Inr d' \<Longrightarrow> df_empty d' \<Longrightarrow>
   keep_valid_points FE d ind ser path s = (Inl bare_raise, logger ERROR empty_output_message s)"
  by (simp add: keep_valid_points_def)

text \<open>
  Claim C6. In \<open>radius_filtering_outliers_o3\<close> and \<open>statistical_filtering_outliers_o3d\<close>, when
  the rows kept by the outlier removal form an empty point cloud, the function logs an
  error and raises at once (the bare \<open>raise\<close> is a RuntimeError): nothing is returned, the
  input data are not used as a fallback, nothing is serialised. Hence neither filter ever
  returns an empty point cloud.
\<close>

theorem outlier_filters_raise_on_empty_output:
  "(df_getitem_list d [''x'', ''y'', ''z''] = Inr xyz
      \<and> remove_radius_outlier FE (df_to_numpy xyz) nb_points radius = Inr ind
      \<and> df_loc d ind = Inr d' \<and> df_empty d'
    \<longrightarrow> radius_filtering_outliers_o3 FE (Is d) radius nb_points ser s
          = (Inl (RuntimeError ''No active exception to reraise''),
             s\<lparr>trace := trace s
                  @ [Log ERROR ''Point cloud output by the outlier filtering step is empty.'']\<rparr>))
   \<and> (df_getitem_list d [''x'', ''y'', ''z''] = Inr xyz
      \<and> remove_statistical_outlier FE (df_to_numpy xyz) nb_neighbors std_factor = Inr ind
      \<and> df_loc d ind = Inr d' \<and> df_empty d'
    \<longrightarrow> statistical_filtering_outliers_o3d FE (Is d) nb_neighbors std_factor ser s
          = (Inl (RuntimeError ''No active exception to reraise''),
             s\<lparr>trace := trace s
                  @ [Log ERROR ''Point cloud output by the outlier filtering step is empty.'']\<rparr>))
   \<and> (fst (radius_filtering_outliers_o3 FE a radius nb_points ser s) = Inr out \<longrightarrow> \<not> df_empty out)
   \<and> (fst (statistical_filtering_outliers_o3d FE a nb_neighbors std_factor ser s) = Inr out
        \<longrightarrow> \<not> df_empty out)"
proof (intro conjI impI)
  assume h: "df_getitem_list d [''x'', ''y'', ''z''] = Inr xyz
      \<and> remove_radius_outlier FE (df_to_numpy xyz) nb_points radius = Inr ind
      \<and> df_loc d ind = Inr d' \<and> df_empty d'"
  then show "radius_filtering_outliers_o3 FE (Is d) radius nb_points ser s
          = (Inl (RuntimeError ''No active exception to reraise''),
             s\<lparr>trace := trace s
                  @ [Log ERROR ''Point cloud output by the outlier filtering step is empty.'']\<rparr>)"
    using keep_valid_points_empty [of d ind d']
    by (simp add: radius_filtering_outliers_o3_def bare_raise_def empty_output_message_def logger_def)
next
  assume h: "df_getitem_list d [''x'', ''y'', ''z''] = Inr xyz
      \<and> remove_statistical_outlier FE (df_to_numpy xyz) nb_neighbors std_factor = Inr ind
      \<and> df_loc d ind = Inr d' \<and> df_empty d'"
  then show "statistical_filtering_outliers_o3d FE (Is d) nb_neighbors std_factor ser s
          = (Inl (RuntimeError ''No active exception to reraise''),
             s\<lparr>trace := trace s
                  @ [Log ERROR ''Point cloud output by the outlier filtering step is empty.'']\<rparr>)"
    using keep_valid_points_empty [of d ind d']
    by (simp add: statistical_filtering_outliers_o3d_def bare_raise_def empty_output_message_def logger_def)
next
  assume "fst (radius_filtering_outliers_o3 FE a radius nb_points ser s) = Inr out"
  then show "\<not> df_empty out"
    using keep_valid_points_not_empty [of FE _ _ ser _ s out]
    by (auto simp: radius_filtering_outliers_o3_def split: pyarg.splits sum.splits)
next
  assume "fst (statistical_filtering_outliers_o3d FE a nb_neighbors std_factor ser s) = Inr out"
  then show "\<not> df_empty out"
    using keep_valid_points_not_empty [of FE _ _ ser _ s out]
    by (auto simp: statistical_filtering_outliers_o3d_def split: pyarg.splits sum.splits)
qed


theorem outlier_filters_raise_on_empty_output_witness:
  "df_getitem_list frame_xyz [''x'', ''y'', ''z''] = Inr frame_xyz
   \<and> remove_radius_outlier (test_filter_env []) (df_to_numpy frame_xyz) 5 1 = Inr []
   \<and> remove_statistical_outlier (test_filter_env []) (df_to_numpy frame_xyz) 5 1 = Inr []
   \<and> df_loc frame_xyz [] = Inr \<lparr>df_cols = [(''x'', []), (''y'', []), (''z'', [])], df_index = []\<rparr>
   \<and> df_empty \<lparr>df_cols = [(''x'', []), (''y'', []), (''z'', [])], df_index = []\<rparr>
   \<and> radius_filtering_outliers_o3 (test_filter_env []) (Is frame_xyz) 1 5 False
         \<lparr>world = [], trace = []\<rparr>
       = (Inl (RuntimeError ''No active exception to reraise''),
          \<lparr>world = [],
           trace = [Log ERROR ''Point cloud output by the outlier filtering step is empty.'']\<rparr>)
   \<and> statistical_filtering_outliers_o3d (test_filter_env []) (Is frame_xyz) 5 1 False
         \<lparr>world = [], trace = []\<rparr>
       = (Inl (RuntimeError ''No active exception to reraise''),
          \<lparr>world = [],
           trace = [Log ERROR ''Point cloud output by the outlier filtering step is empty.'']\<rparr>)
   \<and> fst (radius_filtering_outliers_o3 (test_filter_env [1]) (Is frame_xyz) 1 5 False
         \<lparr>world = [], trace = []\<rparr>)
       = Inr \<lparr>df_cols = [(''x'', [Fin 1]), (''y'', [Fin 0]), (''z'', [Fin 0])], df_index = [1]\<rparr>
   \<and> fst (statistical_filtering_outliers_o3d (test_filter_env [1]) (Is frame_xyz) 5 1 False
         \<lparr>world = [], trace = []\<rparr>)
       = Inr \<lparr>df_cols = [(''x'', [Fin 1]), (''y'', [Fin 0]), (''z'', [Fin 0])], df_index = [1]\<rparr>
   \<and> \<not> df_empty \<lparr>df_cols = [(''x'', [Fin 1]), (''y'', [Fin 0]), (''z'', [Fin 0])], df_index = [1]\<rparr>"
  using outlier_filters_raise_on_empty_output [where d = frame_xyz and xyz = frame_xyz
      and FE = "test_filter_env []" and nb_points = 5 and radius = 1 and ind = "[]"
      and d' = "\<lparr>df_cols = [(''x'', []), (''y'', []), (''z'', [])], df_index = []\<rparr>"
      and nb_neighbors = 5 and std_factor = 1 and ser = False
      and s = "\<lparr>world = [], trace = []\<rparr>"]
    outlier_filters_raise_on_empty_output [where FE = "test_filter_env [1]" and a = "Is frame_xyz"
      and nb_points = 5 and radius = 1 and nb_neighbors = 5 and std_factor = 1 and ser = False
      and s = "\<lparr>world = [], trace = []\<rparr>"
      and out = "\<lparr>df_cols = [(''x'', [Fin 1]), (''y'', [Fin 0]), (''z'', [Fin 0])], df_index = [1]\<rparr>"]
  by (simp add: frame_xyz_def test_filter_env_def df_getitem_list_def df_loc_def take_rows_def
      positions_of_def df_empty_def radius_filtering_outliers_o3_def
      statistical_filtering_outliers_o3d_def keep_valid_points_def df_to_numpy_def)

lemma local_density_analysis_never_returns_data:
  "fst (local_density_analysis FE a nb_neighbors ser s) \<noteq> Inr (Some out)"
  by (auto simp: local_density_analysis_def io_call_def Let_def
      split: pyarg.splits sum.splits prod.splits if_splits)

text \<open>
  Claim C9 (the code departs from it). \<open>local_density_analysis\<close> never returns a point
  cloud (lemma \<open>local_density_analysis_never_returns_data\<close>): on the cloud of two points at
  distance 1, with two neighbours, it prints two numbers and returns \<open>None\<close>.
\<close>

theorem local_density_analysis_returns_None:
  "fst (local_density_analysis (test_filter_env []) (Is frame_xyz) 2 False \<lparr>world = [], trace = []\<rparr>)
     = Inr None
   \<and> trace (snd (local_density_analysis (test_filter_env []) (Is frame_xyz) 2 False
        \<lparr>world = [], trace = []\<rparr>))
     = [Print [] ((1 - exp (- 2)) / 2), Print ''delta'' (1 / 20)]"
  by (simp add: local_density_analysis_def frame_xyz_def test_filter_env_def df_getitem_list_def
      df_to_numpy_def df_drop_def take_rows_def Let_def field_simps)

end
